theory Spec2Isabelle
  imports Complex_Main
begin

section \<open>Data models (data\_models.py)\<close>

text \<open>
  A pandas \<open>DataFrame\<close> is kept column-oriented: the length of its index (the number
  of data rows) and its columns in file order, each a name with its values. The cell
  type \<open>'v\<close> is left open: no property below depends on what a cell holds.
\<close>

record 'v dataframe =
  df_index :: nat
  df_data :: "(string \<times> 'v list) list"

definition df_columns :: "'v dataframe \<Rightarrow> string list" where
  "df_columns df = map fst (df_data df)"

text \<open>\<open>DataFrame.empty\<close>: true when any axis has length 0.\<close>

definition df_empty :: "'v dataframe \<Rightarrow> bool" where
  "df_empty df \<longleftrightarrow> df_columns df = [] \<or> df_index df = 0"

text \<open>The dataclass \<open>DataSet\<close>; a resolved \<open>Path\<close> is kept as its string.\<close>

record 'v dataset =
  ds_path :: string
  ds_columns :: "string list"
  ds_data :: "'v dataframe"

section \<open>The loader (data\_loader.py)\<close>

text \<open>\<open>DataLoaderError\<close> is the one exception class of the loader; it carries its message.\<close>

datatype loader_error = DataLoaderError string

record space_delimited_loader =
  encoding :: string

text \<open>
  What \<open>load\<close> asks of the world outside the repository: path resolution
  (\<open>Path(file).expanduser().resolve()\<close>), \<open>Path.exists\<close>, and \<open>pandas.read_csv\<close>
  called on a path with an encoding, which either raises (\<open>Inl\<close> of the text of the
  exception) or returns a frame.
\<close>

record 'v filesys =
  fs_resolve :: "string \<Rightarrow> string"
  fs_exists :: "string \<Rightarrow> bool"
  fs_read_csv :: "string \<Rightarrow> string \<Rightarrow> string + 'v dataframe"

text \<open>
  The \<open>for file in files\<close> loop of \<open>SpaceDelimitedLoader.load\<close>, with the local list
  \<open>datasets\<close> as accumulator; each \<open>raise\<close> leaves the loop with \<open>Inl\<close>.
\<close>

fun load_loop ::
  "space_delimited_loader \<Rightarrow> 'v filesys \<Rightarrow> string list \<Rightarrow> 'v dataset list
    \<Rightarrow> loader_error + 'v dataset list" where
  "load_loop self fs [] datasets = Inr datasets"
| "load_loop self fs (file # files) datasets =
     (let path = fs_resolve fs file in
      if \<not> fs_exists fs path then
        Inl (DataLoaderError (''File not found: '' @ path))
      else
        (case fs_read_csv fs path (encoding self) of
           Inl exc \<Rightarrow> Inl (DataLoaderError (''Failed to parse '' @ path @ '': '' @ exc))
         | Inr df \<Rightarrow>
             if df_empty df then
               Inl (DataLoaderError (''File '' @ path @ '' contains no data''))
             else
               load_loop self fs files
                 (datasets @ [\<lparr>ds_path = path, ds_columns = df_columns df, ds_data = df\<rparr>])))"

definition load ::
  "space_delimited_loader \<Rightarrow> 'v filesys \<Rightarrow> string list \<Rightarrow> loader_error + 'v dataset list" where
  "load self fs files = load_loop self fs files []"

section \<open>Python and library primitives used by the application\<close>

text \<open>The exceptions that can leave a callback of the application.\<close>

datatype py_exn = IndexError | KeyError | StopIteration | TypeError | ValueError

text \<open>
  What the user sees: the three \<open>tkinter.messagebox\<close> dialogues, each with its title
  and message, and \<open>canvas.draw_idle()\<close>, which puts the current figure on screen.
\<close>

datatype ui_event =
    ShowInfo string string
  | ShowWarning string string
  | ShowError string string
  | DrawIdle

text \<open>
  \<open>str.strip()\<close> removes leading and trailing whitespace; on the characters below 256
  \<open>str.isspace\<close> holds for the code points listed.
\<close>

definition py_isspace :: "char \<Rightarrow> bool" where
  "py_isspace c \<longleftrightarrow>
     (of_char c :: nat) \<in> {9, 10, 11, 12, 13, 28, 29, 30, 31, 32, 133, 160}"

definition py_strip :: "string \<Rightarrow> string" where
  "py_strip s = rev (dropWhile py_isspace (rev (dropWhile py_isspace s)))"

text \<open>Python's \<open>a or b\<close> on strings: \<open>b\<close> when \<open>a\<close> is empty.\<close>

definition py_or :: "string \<Rightarrow> string \<Rightarrow> string" where
  "py_or a b = (if a \<noteq> [] then a else b)"

text \<open>
  \<open>itertools.cycle(colors)\<close>: the saved items and the number of items handed out so
  far. \<open>next\<close> raises \<open>StopIteration\<close> on an empty cycle.
\<close>

record cycle =
  cyc_items :: "string list"
  cyc_count :: nat

definition cycle_next :: "cycle \<Rightarrow> py_exn + string \<times> cycle" where
  "cycle_next c =
     (if cyc_items c = [] then Inl StopIteration
      else Inr (cyc_items c ! (cyc_count c mod length (cyc_items c)),
                c\<lparr>cyc_count := Suc (cyc_count c)\<rparr>))"

text \<open>
  \<open>_color_cycle()\<close>. Its argument is what
  \<open>matplotlib.rcParams["axes.prop_cycle"].by_key()\<close> holds under the key \<open>"color"\<close>
  (\<open>None\<close> when the key is absent), which the installation's configuration decides.
\<close>

definition new_color_cycle :: "string list option \<Rightarrow> cycle" where
  "new_color_cycle rc_color =
     (let colors = (case rc_color of None \<Rightarrow> [''C0'', ''C1'', ''C2''] | Some cs \<Rightarrow> cs)
      in \<lparr>cyc_items = colors, cyc_count = 0\<rparr>)"

text \<open>
  A \<open>tkinter.Listbox\<close>: its rows and \<open>curselection()\<close>. \<open>delete(0, END)\<close> removes
  every row and with it the selection; \<open>get(i)\<close> is the empty string past the last row.
\<close>

record listbox =
  lb_items :: "string list"
  lb_cursel :: "nat list"

definition lb_delete_all :: "listbox \<Rightarrow> listbox" where
  "lb_delete_all lb = \<lparr>lb_items = [], lb_cursel = []\<rparr>"

definition lb_insert_end :: "listbox \<Rightarrow> string \<Rightarrow> listbox" where
  "lb_insert_end lb item = lb\<lparr>lb_items := lb_items lb @ [item]\<rparr>"

definition lb_get :: "listbox \<Rightarrow> nat \<Rightarrow> string" where
  "lb_get lb i = (if i < length (lb_items lb) then lb_items lb ! i else [])"

text \<open>
  The library calls whose results the application only passes on, for a float type
  \<open>'f\<close> left open: \<open>Path.stem\<close>, the builtin \<open>float\<close> on a string (\<open>None\<close> when it
  raises \<open>ValueError\<close>; it accepts \<open>nan\<close> and \<open>inf\<close>), the literal \<open>1.0\<close>, whether a
  float is finite, that is neither NaN nor infinite, and a pandas \<open>Series\<close> times a
  Python value that is a float or \<open>None\<close> (it raises on a column of strings, for one).
\<close>

record ('v, 'f) pylib =
  path_stem :: "string \<Rightarrow> string"
  py_float :: "string \<Rightarrow> 'f option"
  float_one :: 'f
  float_isfinite :: "'f \<Rightarrow> bool"
  series_mul :: "'v list \<Rightarrow> 'f option \<Rightarrow> py_exn + 'v list"

text \<open>The property \<open>DataSet.name\<close>.\<close>

definition ds_name :: "('v, 'f) pylib \<Rightarrow> 'v dataset \<Rightarrow> string" where
  "ds_name L d = path_stem L (ds_path d)"

text \<open>\<open>df[name]\<close>: the column of that name, \<open>KeyError\<close> (here \<open>None\<close>) when there is none.\<close>

definition df_getitem :: "'v dataframe \<Rightarrow> string \<Rightarrow> 'v list option" where
  "df_getitem df name = map_of (df_data df) name"

text \<open>The dataclass \<open>SeriesSelection\<close>.\<close>

record series_selection =
  sel_dataset_index :: nat
  sel_column :: string
  sel_axis :: string
  sel_label :: string
  sel_color :: "string option"

text \<open>
  A matplotlib figure as far as the application builds it: the primary axes made by
  \<open>add_subplot(111)\<close> and the secondary axes made by \<open>twinx()\<close>, each with the lines
  plotted on it and the settings applied to it. \<open>figure.clear()\<close> leaves neither.
\<close>

record 'v line2d =
  ln_xdata :: "'v list"
  ln_ydata :: "'v list"
  ln_label :: string
  ln_color :: "string option"

record ('v, 'f) axes =
  ax_lines :: "'v line2d list"
  ax_xlabel :: string
  ax_ylabel :: string
  ax_legend :: "('v line2d list \<times> string list \<times> string) option"
  ax_xlim :: "('f option \<times> 'f option) option"
  ax_ylim :: "('f option \<times> 'f option) option"
  ax_xscale :: string
  ax_yscale :: string

definition new_axes :: "('v, 'f) axes" where
  "new_axes = \<lparr>ax_lines = [], ax_xlabel = [], ax_ylabel = [], ax_legend = None,
     ax_xlim = None, ax_ylim = None, ax_xscale = ''linear'', ax_yscale = ''linear''\<rparr>"

record ('v, 'f) figure =
  fig_left :: "('v, 'f) axes option"
  fig_right :: "('v, 'f) axes option"

section \<open>The application (plot\_app.py)\<close>

text \<open>
  The attributes of \<open>PlotApplication\<close> that its callbacks read or write. A
  \<open>StringVar\<close> is its string, a \<open>BooleanVar\<close> its truth value.
\<close>

record ('v, 'f) plot_application =
  datasets :: "'v dataset list"
  series :: "series_selection list"
  color_cycle :: cycle
  x_column_var :: string
  left_label_var :: string
  right_label_var :: string
  x_label_var :: string
  series_label_var :: string
  show_legend_var :: bool
  x_min_var :: string
  x_max_var :: string
  left_y_min_var :: string
  left_y_max_var :: string
  right_y_min_var :: string
  right_y_max_var :: string
  x_scale_var :: string
  left_y_scale_var :: string
  right_y_scale_var :: string
  x_log_var :: bool
  left_y_log_var :: bool
  right_y_log_var :: bool
  left_series_indices :: "nat list"
  right_series_indices :: "nat list"
  dataset_list :: listbox
  column_list :: listbox
  left_series_listbox :: listbox
  right_series_listbox :: listbox
  figure :: "('v, 'f) figure"

text \<open>\<open>__init__\<close>: nothing loaded, nothing selected, an empty figure.\<close>

definition init :: "string list option \<Rightarrow> ('v, 'f) plot_application" where
  "init rc_color =
     \<lparr>datasets = [], series = [], color_cycle = new_color_cycle rc_color,
      x_column_var = [], left_label_var = ''Left Axis'', right_label_var = ''Right Axis'',
      x_label_var = ''X Axis'', series_label_var = [], show_legend_var = True,
      x_min_var = [], x_max_var = [], left_y_min_var = [], left_y_max_var = [],
      right_y_min_var = [], right_y_max_var = [],
      x_scale_var = ''1'', left_y_scale_var = ''1'', right_y_scale_var = ''1'',
      x_log_var = False, left_y_log_var = False, right_y_log_var = False,
      left_series_indices = [], right_series_indices = [],
      dataset_list = \<lparr>lb_items = [], lb_cursel = []\<rparr>,
      column_list = \<lparr>lb_items = [], lb_cursel = []\<rparr>,
      left_series_listbox = \<lparr>lb_items = [], lb_cursel = []\<rparr>,
      right_series_listbox = \<lparr>lb_items = [], lb_cursel = []\<rparr>,
      figure = \<lparr>fig_left = None, fig_right = None\<rparr>\<rparr>"

subsection \<open>Series management\<close>

definition current_dataset_index :: "('v, 'f) plot_application \<Rightarrow> nat option" where
  "current_dataset_index self =
     (let selection = lb_cursel (dataset_list self)
      in if selection \<noteq> [] then Some (hd selection) else None)"

definition current_column_name :: "('v, 'f) plot_application \<Rightarrow> string option" where
  "current_column_name self =
     (let selection = lb_cursel (column_list self)
      in if selection \<noteq> [] then Some (lb_get (column_list self) (hd selection)) else None)"

text \<open>
  The \<open>for index, selection in enumerate(self.series)\<close> loop of
  \<open>_refresh_series_lists\<close>. Indexing \<open>self.datasets\<close> past its end raises
  \<open>IndexError\<close> and leaves the lists as they are at that moment.
\<close>

fun refresh_loop ::
  "('v, 'f) pylib \<Rightarrow> nat \<Rightarrow> series_selection list \<Rightarrow> ('v, 'f) plot_application
    \<Rightarrow> ('v, 'f) plot_application \<times> py_exn option" where
  "refresh_loop L index [] self = (self, None)"
| "refresh_loop L index (selection # rest) self =
     (if \<not> sel_dataset_index selection < length (datasets self) then (self, Some IndexError)
      else
        let dataset = datasets self ! sel_dataset_index selection;
            display = sel_label selection @ '' ['' @ ds_name L dataset @ ''/''
                        @ sel_column selection @ '']'';
            display = (case sel_color selection of
                         None \<Rightarrow> display
                       | Some c \<Rightarrow> if c \<noteq> [] then display @ '' ('' @ c @ '')'' else display)
        in if sel_axis selection = ''left'' then
             refresh_loop L (Suc index) rest
               (self\<lparr>left_series_indices := left_series_indices self @ [index],
                      left_series_listbox := lb_insert_end (left_series_listbox self) display\<rparr>)
           else
             refresh_loop L (Suc index) rest
               (self\<lparr>right_series_indices := right_series_indices self @ [index],
                      right_series_listbox := lb_insert_end (right_series_listbox self) display\<rparr>))"

definition refresh_series_lists ::
  "('v, 'f) pylib \<Rightarrow> ('v, 'f) plot_application \<Rightarrow> ('v, 'f) plot_application \<times> py_exn option" where
  "refresh_series_lists L self =
     refresh_loop L 0 (series self)
       (self\<lparr>left_series_listbox := lb_delete_all (left_series_listbox self),
              right_series_listbox := lb_delete_all (right_series_listbox self),
              left_series_indices := [],
              right_series_indices := []\<rparr>)"

text \<open>
  \<open>_add_series(axis)\<close>. The result is the application afterwards, the dialogues shown,
  and the exception that left the callback, if any.
\<close>

definition add_series ::
  "('v, 'f) pylib \<Rightarrow> string \<Rightarrow> ('v, 'f) plot_application
    \<Rightarrow> ('v, 'f) plot_application \<times> ui_event list \<times> py_exn option" where
  "add_series L ax self =
     (let x_column = x_column_var self in
      case current_dataset_index self of
        None \<Rightarrow>
          (self, [ShowInfo ''Select dataset'' ''Choose a dataset before adding a series.''], None)
      | Some di \<Rightarrow>
         (case current_column_name self of
            None \<Rightarrow>
              (self, [ShowInfo ''Select column'' ''Choose a column before adding a series.''], None)
          | Some col \<Rightarrow>
              if col = [] then
                (self, [ShowInfo ''Select column'' ''Choose a column before adding a series.''],
                 None)
              else if x_column = [] then
                (self, [ShowInfo ''Select X column'' ''Choose a column to use for the X axis.''],
                 None)
              else if \<not> di < length (datasets self) then (self, [], Some IndexError)
              else
                let dataset = datasets self ! di in
                if x_column \<notin> set (ds_columns dataset) then
                  (self,
                   [ShowError ''Column unavailable''
                      (''Dataset '' @ CHR 0x27 # ds_name L dataset
                         @ ''' does not contain column '' @ CHR 0x27 # x_column @ '''.'')],
                   None)
                else
                  let lbl = py_or (py_strip (series_label_var self))
                              (ds_name L dataset @ '': '' @ col)
                  in (case cycle_next (color_cycle self) of
                        Inl exn \<Rightarrow> (self, [], Some exn)
                      | Inr (c, cyc) \<Rightarrow>
                          let (self', exn) =
                            refresh_series_lists L
                              (self\<lparr>color_cycle := cyc,
                                     series := series self
                                       @ [\<lparr>sel_dataset_index = di, sel_column = col,
                                            sel_axis = ax, sel_label = lbl,
                                            sel_color = Some c\<rparr>],
                                     series_label_var := []\<rparr>)
                          in (self', [], exn))))"

definition series_widgets :: "string \<Rightarrow> ('v, 'f) plot_application \<Rightarrow> listbox \<times> nat list" where
  "series_widgets ax self =
     (if ax = ''left'' then (left_series_listbox self, left_series_indices self)
      else (right_series_listbox self, right_series_indices self))"

text \<open>\<open>_remove_series(axis)\<close>; \<open>del self.series[target]\<close> raises past the end.\<close>

definition remove_series ::
  "('v, 'f) pylib \<Rightarrow> string \<Rightarrow> ('v, 'f) plot_application
    \<Rightarrow> ('v, 'f) plot_application \<times> py_exn option" where
  "remove_series L ax self =
     (let (listbox, index_map) = series_widgets ax self;
          selection = lb_cursel listbox
      in if selection = [] then (self, None)
         else if \<not> hd selection < length index_map then (self, Some IndexError)
         else
           let target = index_map ! hd selection in
           if \<not> target < length (series self) then (self, Some IndexError)
           else
             refresh_series_lists L
               (self\<lparr>series := take target (series self) @ drop (Suc target) (series self)\<rparr>))"

subsection \<open>Plotting\<close>

text \<open>
  \<open>_get_float_from_var(var, label, default)\<close>. \<open>Inl\<close> is the error dialogue shown
  before \<open>ValueError\<close> is raised; the only caller catches that exception.
\<close>

definition get_float_from_var ::
  "('v, 'f) pylib \<Rightarrow> string \<Rightarrow> string \<Rightarrow> 'f option \<Rightarrow> ui_event + 'f option" where
  "get_float_from_var L var lbl dflt =
     (let val = py_strip var in
      if val = [] then Inr dflt
      else (case py_float L val of
              Some x \<Rightarrow> Inr (Some x)
            | None \<Rightarrow>
                Inl (ShowError ''Invalid value'' (''Enter a numeric value for '' @ lbl @ ''.''))))"

text \<open>Sequencing inside a \<open>try\<close> block: the first raise skips the rest.\<close>

definition bind_raise :: "'e + 'a \<Rightarrow> ('a \<Rightarrow> 'e + 'b) \<Rightarrow> 'e + 'b" where
  "bind_raise m k = (case m of Inl e \<Rightarrow> Inl e | Inr x \<Rightarrow> k x)"

record 'f numeric_fields =
  nf_x_scale :: "'f option"
  nf_left_y_scale :: "'f option"
  nf_right_y_scale :: "'f option"
  nf_x_min :: "'f option"
  nf_x_max :: "'f option"
  nf_left_y_min :: "'f option"
  nf_left_y_max :: "'f option"
  nf_right_y_min :: "'f option"
  nf_right_y_max :: "'f option"

text \<open>The nine assignments of the \<open>try\<close> block of \<open>_plot_series\<close>, in order.\<close>

definition read_numeric_fields ::
  "('v, 'f) pylib \<Rightarrow> ('v, 'f) plot_application \<Rightarrow> ui_event + 'f numeric_fields" where
  "read_numeric_fields L self =
     bind_raise (get_float_from_var L (x_scale_var self) ''X axis scale''
                   (Some (float_one L))) (\<lambda>x_scale.
     bind_raise (get_float_from_var L (left_y_scale_var self) ''Left axis scale''
                   (Some (float_one L))) (\<lambda>left_y_scale.
     bind_raise (get_float_from_var L (right_y_scale_var self) ''Right axis scale''
                   (Some (float_one L))) (\<lambda>right_y_scale.
     bind_raise (get_float_from_var L (x_min_var self) ''X axis minimum'' None) (\<lambda>x_min.
     bind_raise (get_float_from_var L (x_max_var self) ''X axis maximum'' None) (\<lambda>x_max.
     bind_raise (get_float_from_var L (left_y_min_var self) ''Left axis minimum'' None)
       (\<lambda>left_y_min.
     bind_raise (get_float_from_var L (left_y_max_var self) ''Left axis maximum'' None)
       (\<lambda>left_y_max.
     bind_raise (get_float_from_var L (right_y_min_var self) ''Right axis minimum'' None)
       (\<lambda>right_y_min.
     bind_raise (get_float_from_var L (right_y_max_var self) ''Right axis maximum'' None)
       (\<lambda>right_y_max.
     Inr \<lparr>nf_x_scale = x_scale, nf_left_y_scale = left_y_scale,
          nf_right_y_scale = right_y_scale, nf_x_min = x_min, nf_x_max = x_max,
          nf_left_y_min = left_y_min, nf_left_y_max = left_y_max,
          nf_right_y_min = right_y_min, nf_right_y_max = right_y_max\<rparr>)))))))))"

text \<open>
  The local variables of \<open>_plot_series\<close> that its loop updates, with the warnings it
  has shown so far.
\<close>

record ('v, 'f) plot_state =
  ps_ax_left :: "('v, 'f) axes"
  ps_ax_right :: "('v, 'f) axes option"
  ps_legend_handles :: "'v line2d list"
  ps_legend_labels :: "string list"
  ps_events :: "ui_event list"

definition axes_plot :: "('v, 'f) axes \<Rightarrow> 'v line2d \<Rightarrow> ('v, 'f) axes" where
  "axes_plot a line = a\<lparr>ax_lines := ax_lines a @ [line]\<rparr>"

text \<open>
  The \<open>for selection in self.series\<close> loop of \<open>_plot_series\<close>. An exception leaves
  the loop with the axes as drawn so far.
\<close>

fun plot_loop ::
  "('v, 'f) pylib \<Rightarrow> 'v dataset list \<Rightarrow> string \<Rightarrow> 'f numeric_fields
    \<Rightarrow> series_selection list \<Rightarrow> ('v, 'f) plot_state
    \<Rightarrow> ('v, 'f) plot_state \<times> py_exn option" where
  "plot_loop L dsets x_column nf [] st = (st, None)"
| "plot_loop L dsets x_column nf (selection # rest) st =
     (if \<not> sel_dataset_index selection < length dsets then (st, Some IndexError)
      else
        let dataset = dsets ! sel_dataset_index selection in
        if sel_column selection \<notin> set (df_columns (ds_data dataset)) then
          plot_loop L dsets x_column nf rest
            (st\<lparr>ps_events := ps_events st
                  @ [ShowWarning ''Missing column''
                       (''Column '' @ CHR 0x27 # sel_column selection
                          @ ''' no longer exists in dataset '' @ CHR 0x27 # ds_name L dataset
                          @ '''.'')]\<rparr>)
        else if x_column \<notin> set (df_columns (ds_data dataset)) then
          plot_loop L dsets x_column nf rest
            (st\<lparr>ps_events := ps_events st
                  @ [ShowWarning ''Missing column''
                       (''Column '' @ CHR 0x27 # x_column
                          @ ''' not found in dataset '' @ CHR 0x27 # ds_name L dataset
                          @ '''.'')]\<rparr>)
        else
          (case df_getitem (ds_data dataset) x_column of
             None \<Rightarrow> (st, Some KeyError)
           | Some x_data \<Rightarrow>
          (case df_getitem (ds_data dataset) (sel_column selection) of
             None \<Rightarrow> (st, Some KeyError)
           | Some y_data \<Rightarrow>
          (case series_mul L x_data (nf_x_scale nf) of
             Inl exn \<Rightarrow> (st, Some exn)
           | Inr x_scaled \<Rightarrow>
          let y_scale = (if sel_axis selection = ''left'' then nf_left_y_scale nf
                         else nf_right_y_scale nf) in
          (case series_mul L y_data y_scale of
             Inl exn \<Rightarrow> (st, Some exn)
           | Inr y_scaled \<Rightarrow>
          let line = \<lparr>ln_xdata = x_scaled, ln_ydata = y_scaled,
                       ln_label = sel_label selection, ln_color = sel_color selection\<rparr>
          in if sel_axis selection = ''left'' then
               plot_loop L dsets x_column nf rest
                 (st\<lparr>ps_ax_left := axes_plot (ps_ax_left st) line,
                      ps_legend_handles := ps_legend_handles st @ [line],
                      ps_legend_labels := ps_legend_labels st @ [sel_label selection]\<rparr>)
             else
               let target_axis = (case ps_ax_right st of None \<Rightarrow> new_axes | Some a \<Rightarrow> a)
               in plot_loop L dsets x_column nf rest
                    (st\<lparr>ps_ax_right := Some (axes_plot target_axis line),
                         ps_legend_handles := ps_legend_handles st @ [line],
                         ps_legend_labels := ps_legend_labels st @ [sel_label selection]\<rparr>))))))"

text \<open>
  \<open>Axes.set_xlim\<close> and \<open>Axes.set_ylim\<close> raise \<open>ValueError\<close> when a bound they are
  given is NaN or infinite; a bound \<open>None\<close> is left alone.
\<close>

definition set_lim_ok :: "('v, 'f) pylib \<Rightarrow> 'f option \<Rightarrow> 'f option \<Rightarrow> bool" where
  "set_lim_ok L lo hi \<longleftrightarrow>
     (case lo of None \<Rightarrow> True | Some v \<Rightarrow> float_isfinite L v)
     \<and> (case hi of None \<Rightarrow> True | Some v \<Rightarrow> float_isfinite L v)"

text \<open>
  What \<open>_plot_series\<close> does to the axes after the loop: labels, legend, limits and
  scales. The x axis is shared, so its label, limits and scale live on the primary axes.
  A \<open>ValueError\<close> from a limit leaves the axes as they are at that moment, scales not
  yet applied.
\<close>

definition finish_axes ::
  "('v, 'f) pylib \<Rightarrow> ('v, 'f) plot_application \<Rightarrow> string \<Rightarrow> 'f numeric_fields
    \<Rightarrow> ('v, 'f) plot_state \<Rightarrow> ('v, 'f) figure \<times> py_exn option" where
  "finish_axes L self x_column nf st =
     (let ax_left = ps_ax_left st;
          ax_right = ps_ax_right st;
          ax_left = ax_left\<lparr>ax_xlabel := py_or (py_strip (x_label_var self)) x_column\<rparr>;
          ax_left = ax_left\<lparr>ax_ylabel := py_or (py_strip (left_label_var self)) ''Left Axis''\<rparr>;
          ax_right = map_option
            (\<lambda>a. a\<lparr>ax_ylabel := py_or (py_strip (right_label_var self)) ''Right Axis''\<rparr>)
            ax_right;
          ax_left = (if show_legend_var self \<and> ps_legend_handles st \<noteq> [] then
                       ax_left\<lparr>ax_legend :=
                         Some (ps_legend_handles st, ps_legend_labels st, ''best'')\<rparr>
                     else ax_left)
      in if (nf_x_min nf \<noteq> None \<or> nf_x_max nf \<noteq> None)
            \<and> \<not> set_lim_ok L (nf_x_min nf) (nf_x_max nf) then
           (\<lparr>fig_left = Some ax_left, fig_right = ax_right\<rparr>, Some ValueError)
         else
           let ax_left = (if nf_x_min nf \<noteq> None \<or> nf_x_max nf \<noteq> None then
                            ax_left\<lparr>ax_xlim := Some (nf_x_min nf, nf_x_max nf)\<rparr>
                          else ax_left)
           in if (nf_left_y_min nf \<noteq> None \<or> nf_left_y_max nf \<noteq> None)
                 \<and> \<not> set_lim_ok L (nf_left_y_min nf) (nf_left_y_max nf) then
                (\<lparr>fig_left = Some ax_left, fig_right = ax_right\<rparr>, Some ValueError)
              else
                let ax_left = (if nf_left_y_min nf \<noteq> None \<or> nf_left_y_max nf \<noteq> None then
                                 ax_left\<lparr>ax_ylim :=
                                   Some (nf_left_y_min nf, nf_left_y_max nf)\<rparr>
                               else ax_left)
                in if ax_right \<noteq> None
                      \<and> (nf_right_y_min nf \<noteq> None \<or> nf_right_y_max nf \<noteq> None)
                      \<and> \<not> set_lim_ok L (nf_right_y_min nf) (nf_right_y_max nf) then
                     (\<lparr>fig_left = Some ax_left, fig_right = ax_right\<rparr>, Some ValueError)
                   else
                     let ax_right =
                           (if nf_right_y_min nf \<noteq> None \<or> nf_right_y_max nf \<noteq> None then
                              map_option
                                (\<lambda>a. a\<lparr>ax_ylim :=
                                        Some (nf_right_y_min nf, nf_right_y_max nf)\<rparr>)
                                ax_right
                            else ax_right);
                         ax_left = ax_left\<lparr>ax_xscale :=
                                     (if x_log_var self then ''log'' else ''linear'')\<rparr>;
                         ax_left = ax_left\<lparr>ax_yscale :=
                                     (if left_y_log_var self then ''log'' else ''linear'')\<rparr>;
                         ax_right = map_option
                           (\<lambda>a. a\<lparr>ax_yscale :=
                                   (if right_y_log_var self then ''log'' else ''linear'')\<rparr>)
                           ax_right
                     in (\<lparr>fig_left = Some ax_left, fig_right = ax_right\<rparr>, None))"

text \<open>
  \<open>_plot_series\<close>. The figure is cleared and given its primary axes only after the
  checks and the numeric fields have passed; the canvas is redrawn only at the end, so
  not when an exception leaves the loop or the setting of the limits.
\<close>

definition plot_series ::
  "('v, 'f) pylib \<Rightarrow> ('v, 'f) plot_application
    \<Rightarrow> ('v, 'f) plot_application \<times> ui_event list \<times> py_exn option" where
  "plot_series L self =
     (if series self = [] then
        (self, [ShowInfo ''No series'' ''Add at least one series to plot.''], None)
      else
        let x_column = x_column_var self in
        if x_column = [] then
          (self, [ShowInfo ''Select X column'' ''Choose a column for the X axis.''], None)
        else
          (case read_numeric_fields L self of
             Inl shown \<Rightarrow> (self, [shown], None)
           | Inr nf \<Rightarrow>
               (case plot_loop L (datasets self) x_column nf (series self)
                       \<lparr>ps_ax_left = new_axes, ps_ax_right = None, ps_legend_handles = [],
                        ps_legend_labels = [], ps_events = []\<rparr> of
                  (st, Some exn) \<Rightarrow>
                    (self\<lparr>figure := \<lparr>fig_left = Some (ps_ax_left st),
                                      fig_right = ps_ax_right st\<rparr>\<rparr>,
                     ps_events st, Some exn)
                | (st, None) \<Rightarrow>
                    (case finish_axes L self x_column nf st of
                       (fig, Some exn) \<Rightarrow> (self\<lparr>figure := fig\<rparr>, ps_events st, Some exn)
                     | (fig, None) \<Rightarrow>
                         (self\<lparr>figure := fig\<rparr>, ps_events st @ [DrawIdle], None)))))"

section \<open>A small session\<close>

text \<open>
  Concrete instances on which the theorems below are exercised: a file system with two
  data files, a header-only file and an unreadable one; library functions on the few
  strings that occur; and the application after both data files were opened, the first
  one selected together with its column \<open>a\<close>, and \<open>t\<close> chosen for the x axis.
\<close>

definition example_loader :: space_delimited_loader where
  "example_loader = \<lparr>encoding = ''utf-8''\<rparr>"

definition example_fs :: "real filesys" where
  "example_fs =
     \<lparr>fs_resolve = (\<lambda>file. ''/data/'' @ file),
      fs_exists = (\<lambda>path. path \<in> set [''/data/run1.txt'', ''/data/run2.txt'',
                                        ''/data/header.txt'', ''/data/bad.txt'']),
      fs_read_csv = (\<lambda>path enc.
        if path = ''/data/run1.txt'' then
          Inr \<lparr>df_index = 2, df_data = [(''t'', [0, 1]), (''a'', [2, 3]), (''b'', [4, 5])]\<rparr>
        else if path = ''/data/run2.txt'' then
          Inr \<lparr>df_index = 2, df_data = [(''u'', [0, 1]), (''c'', [7, 8])]\<rparr>
        else if path = ''/data/header.txt'' then
          Inr \<lparr>df_index = 0, df_data = [(''a'', []), (''b'', []), (''c'', [])]\<rparr>
        else Inl ''No columns to parse from file'')\<rparr>"

definition example_datasets :: "real dataset list" where
  "example_datasets =
     [\<lparr>ds_path = ''/data/run1.txt'', ds_columns = [''t'', ''a'', ''b''],
       ds_data = \<lparr>df_index = 2,
                   df_data = [(''t'', [0, 1]), (''a'', [2, 3]), (''b'', [4, 5])]\<rparr>\<rparr>,
      \<lparr>ds_path = ''/data/run2.txt'', ds_columns = [''u'', ''c''],
       ds_data = \<lparr>df_index = 2, df_data = [(''u'', [0, 1]), (''c'', [7, 8])]\<rparr>\<rparr>]"

definition example_stem :: "string \<Rightarrow> string" where
  "example_stem path =
     takeWhile (\<lambda>c. c \<noteq> CHR ''.'') (rev (takeWhile (\<lambda>c. c \<noteq> CHR ''/'') (rev path)))"

definition example_float :: "string \<Rightarrow> real option" where
  "example_float s =
     (if s = ''1'' then Some 1 else if s = ''2'' then Some 2
      else if s = ''10'' then Some 10 else None)"

definition example_mul :: "real list \<Rightarrow> real option \<Rightarrow> py_exn + real list" where
  "example_mul xs k = (case k of None \<Rightarrow> Inl TypeError | Some c \<Rightarrow> Inr (map (\<lambda>x. x * c) xs))"

definition example_lib :: "(real, real) pylib" where
  "example_lib = \<lparr>path_stem = example_stem, py_float = example_float, float_one = 1,
     float_isfinite = (\<lambda>x. True), series_mul = example_mul\<rparr>"

definition example_app :: "string list option \<Rightarrow> (real, real) plot_application" where
  "example_app rc_color =
     (init rc_color)
       \<lparr>datasets := example_datasets,
        dataset_list := \<lparr>lb_items = [''run1'', ''run2''], lb_cursel = [0]\<rparr>,
        column_list := \<lparr>lb_items = [''t'', ''a'', ''b''], lb_cursel = [1]\<rparr>,
        x_column_var := ''t''\<rparr>"

section \<open>Notions used to state the properties\<close>

text \<open>
  The list a selection is shown in: \<open>_refresh_series_lists\<close> puts the selections whose
  tag is \<open>"left"\<close> in the left list and all others in the right one, and
  \<open>_series_widgets\<close> hands out the left list for \<open>"left"\<close> and the right one otherwise.
\<close>

definition on_axis :: "string \<Rightarrow> series_selection \<Rightarrow> bool" where
  "on_axis ax selection \<longleftrightarrow> (sel_axis selection = ''left'') = (ax = ''left'')"

text \<open>
  \<open>selectionsForAxis\<close> as the application has it: the rows of the axis's list, each
  mapped back to the master list through the index map.
\<close>

definition selections_for_axis ::
  "string \<Rightarrow> ('v, 'f) plot_application \<Rightarrow> series_selection list" where
  "selections_for_axis ax self = map (\<lambda>i. series self ! i) (snd (series_widgets ax self))"

text \<open>The row text \<open>_refresh_series_lists\<close> builds for a selection.\<close>

definition series_display :: "('v, 'f) pylib \<Rightarrow> 'v dataset list \<Rightarrow> series_selection \<Rightarrow> string" where
  "series_display L dsets selection =
     (let display = sel_label selection @ '' [''
                      @ ds_name L (dsets ! sel_dataset_index selection) @ ''/''
                      @ sel_column selection @ '']''
      in case sel_color selection of
           None \<Rightarrow> display
         | Some c \<Rightarrow> if c \<noteq> [] then display @ '' ('' @ c @ '')'' else display)"

text \<open>Every selection refers to a loaded data set.\<close>

definition indices_valid :: "('v, 'f) plot_application \<Rightarrow> bool" where
  "indices_valid self \<longleftrightarrow>
     list_all (\<lambda>selection. sel_dataset_index selection < length (datasets self)) (series self)"

text \<open>The index maps are those \<open>_refresh_series_lists\<close> computes for the current master list.\<close>

definition lists_in_sync :: "('v, 'f) plot_application \<Rightarrow> bool" where
  "lists_in_sync self \<longleftrightarrow>
     left_series_indices self
       = map fst (filter (\<lambda>(index, selection). sel_axis selection = ''left'')
                    (enumerate 0 (series self)))
     \<and> right_series_indices self
       = map fst (filter (\<lambda>(index, selection). sel_axis selection \<noteq> ''left'')
                    (enumerate 0 (series self)))"

text \<open>The application with its two series lists and their index maps blanked out.\<close>

definition apart_from_series_lists ::
  "('v, 'f) plot_application \<Rightarrow> ('v, 'f) plot_application" where
  "apart_from_series_lists self =
     self\<lparr>left_series_indices := [], right_series_indices := [],
          left_series_listbox := \<lparr>lb_items = [], lb_cursel = []\<rparr>,
          right_series_listbox := \<lparr>lb_items = [], lb_cursel = []\<rparr>\<rparr>"

text \<open>
  The small session after three series were added from the same column, on the left,
  the right and the left axis.
\<close>

definition example_three :: "(real, real) plot_application" where
  "example_three =
     fst (add_series example_lib ''left''
       (fst (add_series example_lib ''right''
         (fst (add_series example_lib ''left'' (example_app None))))))"

text \<open>The same session after a click on the second row of the left list.\<close>

definition example_clicked :: "(real, real) plot_application" where
  "example_clicked =
     example_three\<lparr>left_series_listbox := (left_series_listbox example_three)\<lparr>lb_cursel := [1]\<rparr>\<rparr>"

text \<open>
  A selection can be drawn when its column and the x-axis column are both columns of
  the frame of its data set: the two tests of the loop of \<open>_plot_series\<close>.
\<close>

definition drawable :: "'v dataset list \<Rightarrow> string \<Rightarrow> series_selection \<Rightarrow> bool" where
  "drawable dsets x_column selection \<longleftrightarrow>
     sel_column selection \<in> set (df_columns (ds_data (dsets ! sel_dataset_index selection)))
     \<and> x_column \<in> set (df_columns (ds_data (dsets ! sel_dataset_index selection)))"

text \<open>The warning the loop shows for a selection that cannot be drawn.\<close>

definition missing_column_warning ::
  "('v, 'f) pylib \<Rightarrow> 'v dataset list \<Rightarrow> string \<Rightarrow> series_selection \<Rightarrow> ui_event" where
  "missing_column_warning L dsets x_column selection =
     (let dataset = dsets ! sel_dataset_index selection in
      if sel_column selection \<notin> set (df_columns (ds_data dataset)) then
        ShowWarning ''Missing column''
          (''Column '' @ CHR 0x27 # sel_column selection
             @ ''' no longer exists in dataset '' @ CHR 0x27 # ds_name L dataset @ '''.'')
      else
        ShowWarning ''Missing column''
          (''Column '' @ CHR 0x27 # x_column
             @ ''' not found in dataset '' @ CHR 0x27 # ds_name L dataset @ '''.''))"

text \<open>
  The line the loop plots for a selection: its scaled x and y data with its label and
  colour; \<open>None\<close> when the selection cannot be drawn or a multiplication raises.
\<close>

definition series_line ::
  "('v, 'f) pylib \<Rightarrow> 'v dataset list \<Rightarrow> string \<Rightarrow> 'f numeric_fields \<Rightarrow> series_selection
    \<Rightarrow> 'v line2d option" where
  "series_line L dsets x_column nf selection =
     (let dataset = dsets ! sel_dataset_index selection in
      if \<not> drawable dsets x_column selection then None
      else
        (case df_getitem (ds_data dataset) x_column of
           None \<Rightarrow> None
         | Some x_data \<Rightarrow>
        (case df_getitem (ds_data dataset) (sel_column selection) of
           None \<Rightarrow> None
         | Some y_data \<Rightarrow>
        (case series_mul L x_data (nf_x_scale nf) of
           Inl exn \<Rightarrow> None
         | Inr x_scaled \<Rightarrow>
        (case series_mul L y_data
                (if sel_axis selection = ''left'' then nf_left_y_scale nf
                 else nf_right_y_scale nf) of
           Inl exn \<Rightarrow> None
         | Inr y_scaled \<Rightarrow>
             Some \<lparr>ln_xdata = x_scaled, ln_ydata = y_scaled,
                   ln_label = sel_label selection, ln_color = sel_color selection\<rparr>)))))"

text \<open>The lines on the secondary axes of a figure, none when it has no such axes.\<close>

definition right_lines :: "('v, 'f) axes option \<Rightarrow> 'v line2d list" where
  "right_lines ax_right = (case ax_right of None \<Rightarrow> [] | Some a \<Rightarrow> ax_lines a)"

text \<open>
  The nine numeric text fields with the labels \<open>_plot_series\<close> passes for them, in the
  order in which it reads them.
\<close>

definition numeric_field_texts :: "('v, 'f) plot_application \<Rightarrow> (string \<times> string) list" where
  "numeric_field_texts self =
     [(x_scale_var self, ''X axis scale''),
      (left_y_scale_var self, ''Left axis scale''),
      (right_y_scale_var self, ''Right axis scale''),
      (x_min_var self, ''X axis minimum''),
      (x_max_var self, ''X axis maximum''),
      (left_y_min_var self, ''Left axis minimum''),
      (left_y_max_var self, ''Left axis maximum''),
      (right_y_min_var self, ''Right axis minimum''),
      (right_y_max_var self, ''Right axis maximum'')]"

text \<open>A field passes when it is blank after stripping or \<open>float\<close> accepts what is left.\<close>

definition field_ok :: "('v, 'f) pylib \<Rightarrow> string \<Rightarrow> bool" where
  "field_ok L text \<longleftrightarrow> py_strip text = [] \<or> py_float L (py_strip text) \<noteq> None"

text \<open>The label of the first field of a list that does not pass.\<close>

fun first_invalid :: "('v, 'f) pylib \<Rightarrow> (string \<times> string) list \<Rightarrow> string option" where
  "first_invalid L [] = None"
| "first_invalid L ((text, lbl) # rest) =
     (if field_ok L text then first_invalid L rest else Some lbl)"

text \<open>
  The small session with three selections: column \<open>c\<close> of the second data set, which
  has no column \<open>t\<close>, on the right axis, and columns \<open>a\<close> and \<open>b\<close> of the first on the
  left axis; \<open>t\<close> is the x-axis column.
\<close>

definition example_mixed :: "(real, real) plot_application" where
  "example_mixed =
     (example_app None)
       \<lparr>series :=
          [\<lparr>sel_dataset_index = 1, sel_column = ''c'', sel_axis = ''right'',
            sel_label = ''run2: c'', sel_color = Some ''C0''\<rparr>,
           \<lparr>sel_dataset_index = 0, sel_column = ''a'', sel_axis = ''left'',
            sel_label = ''run1: a'', sel_color = Some ''C1''\<rparr>,
           \<lparr>sel_dataset_index = 0, sel_column = ''b'', sel_axis = ''left'',
            sel_label = ''run1: b'', sel_color = Some ''C2''\<rparr>]\<rparr>"


section \<open>A session with text columns and non-finite floats\<close>














section \<open>Properties of the loader\<close>

lemma load_loop_acc:
  "load_loop self fs files (acc @ acc') =
     (case load_loop self fs files acc' of Inl e \<Rightarrow> Inl e | Inr ds \<Rightarrow> Inr (acc @ ds))"
proof (induction files arbitrary: acc')
  case Nil
  show ?case by simp
next
  case (Cons f files)
  show ?case
  proof (cases "fs_exists fs (fs_resolve fs f)")
    case False
    then show ?thesis by (simp add: Let_def)
  next
    case True
    show ?thesis
    proof (cases "fs_read_csv fs (fs_resolve fs f) (encoding self)")
      case (Inl exc)
      with True show ?thesis by (simp add: Let_def)
    next
      case (Inr df)
      show ?thesis
        using True Inr
          Cons.IH[of "acc' @ [\<lparr>ds_path = fs_resolve fs f, ds_columns = df_columns df, ds_data = df\<rparr>]"]
        by (simp add: Let_def)
    qed
  qed
qed

lemma load_Nil: "load self fs [] = Inr []"
  by (simp add: load_def)

lemma load_Cons:
  "load self fs (f # files) =
     (case load self fs [f] of Inl e \<Rightarrow> Inl e
      | Inr a \<Rightarrow> (case load self fs files of Inl e \<Rightarrow> Inl e | Inr b \<Rightarrow> Inr (a @ b)))"
proof (cases "fs_exists fs (fs_resolve fs f)")
  case False
  then show ?thesis by (simp add: load_def Let_def)
next
  case True
  show ?thesis
  proof (cases "fs_read_csv fs (fs_resolve fs f) (encoding self)")
    case (Inl exc)
    with True show ?thesis by (simp add: load_def Let_def)
  next
    case (Inr df)
    show ?thesis
      using True Inr
        load_loop_acc[of self fs files
          "[\<lparr>ds_path = fs_resolve fs f, ds_columns = df_columns df, ds_data = df\<rparr>]" "[]"]
      by (simp add: load_def Let_def)
  qed
qed

lemma load_append:
  "load self fs (xs @ ys) =
     (case load self fs xs of Inl e \<Rightarrow> Inl e
      | Inr a \<Rightarrow> (case load self fs ys of Inl e \<Rightarrow> Inl e | Inr b \<Rightarrow> Inr (a @ b)))"
proof (induction xs)
  case Nil
  show ?case by (simp add: load_Nil split: sum.split)
next
  case (Cons x xs)
  show ?case
    apply (simp only: append_Cons)
    apply (subst load_Cons)
    apply (subst (2) load_Cons)
    apply (simp add: Cons.IH split: sum.split)
    done
qed

text \<open>A call on one path fails or returns exactly one data set, whose path is the resolved one.\<close>

lemma load_single_cases:
  "(\<exists>e. load self fs [f] = Inl e) \<or>
   (\<exists>d. load self fs [f] = Inr [d] \<and> ds_path d = fs_resolve fs f)"
  by (simp add: load_def Let_def split: sum.split)

lemma load_Inr_iff:
  "load self fs files = Inr ds \<longleftrightarrow>
     length ds = length files \<and> (\<forall>i<length files. load self fs [files ! i] = Inr [ds ! i])"
proof (induction files arbitrary: ds)
  case Nil
  show ?case by (auto simp: load_Nil)
next
  case (Cons f files)
  show ?case
  proof (cases "load self fs [f]")
    case (Inl e)
    then show ?thesis by (subst load_Cons) (auto)
  next
    case (Inr a)
    with load_single_cases[of self fs f] obtain d where a: "a = [d]" by auto
    show ?thesis
    proof (cases "load self fs files")
      case (Inl e)
      have "\<not> (length (tl ds) = length files
               \<and> (\<forall>i<length files. load self fs [files ! i] = Inr [tl ds ! i]))"
        using Cons.IH[of "tl ds"] Inl by simp
      then show ?thesis using Inl Inr a
        apply (subst load_Cons)
        apply (cases ds)
         apply (auto simp: nth_Cons split: nat.splits)
        done
    next
      case r: (Inr b)
      show ?thesis using r Inr a Cons.IH[of b] Cons.IH[of "tl ds"]
        apply (subst load_Cons)
        apply (cases ds)
         apply (auto simp: nth_Cons less_Suc_eq_0_disj split: nat.splits)
        done
    qed
  qed
qed

text \<open>The error of a call is the error of the first path that fails on its own.\<close>

lemma load_first_failure:
  "i < length files \<Longrightarrow> load self fs [files ! i] = Inl e \<Longrightarrow>
     \<exists>j\<le>i. \<exists>e'. load self fs [files ! j] = Inl e' \<and> load self fs files = Inl e'
        \<and> (\<forall>k<j. \<exists>d. load self fs [files ! k] = Inr [d])"
proof (induction files arbitrary: i)
  case Nil
  then show ?case by simp
next
  case (Cons f files)
  show ?case
  proof (cases "load self fs [f]")
    case (Inl e0)
    then have "load self fs (f # files) = Inl e0" by (subst load_Cons) simp
    with Inl show ?thesis by (intro exI[of _ 0]) auto
  next
    case (Inr a)
    with load_single_cases[of self fs f] obtain d where a: "a = [d]" by auto
    from Inr Cons.prems obtain i' where i': "i = Suc i'" by (cases i) auto
    with Cons.prems have "i' < length files" "load self fs [files ! i'] = Inl e" by auto
    from Cons.IH[OF this] obtain j e' where j: "j \<le> i'" "load self fs [files ! j] = Inl e'"
      "load self fs files = Inl e'" "\<forall>k<j. \<exists>d. load self fs [files ! k] = Inr [d]" by blast
    have "load self fs (f # files) = Inl e'" using Inr j(3) by (subst load_Cons) simp
    moreover have "\<forall>k<Suc j. \<exists>d. load self fs [(f # files) ! k] = Inr [d]"
      using j(4) Inr a by (auto simp: nth_Cons split: nat.splits)
    ultimately show ?thesis using j(1,2) i'
      by (intro exI[of _ "Suc j"]) auto
  qed
qed

lemma load_single_not_found:
  "\<not> fs_exists fs (fs_resolve fs f) \<Longrightarrow>
     load self fs [f] = Inl (DataLoaderError (''File not found: '' @ fs_resolve fs f))"
  by (simp add: load_def)

lemma load_single_empty:
  "fs_exists fs (fs_resolve fs f) \<Longrightarrow> fs_read_csv fs (fs_resolve fs f) (encoding self) = Inr df
     \<Longrightarrow> df_index df = 0 \<Longrightarrow>
     load self fs [f]
       = Inl (DataLoaderError (''File '' @ fs_resolve fs f @ '' contains no data''))"
  by (simp add: load_def df_empty_def)

lemma load_single_ok:
  "fs_exists fs (fs_resolve fs f) \<Longrightarrow> fs_read_csv fs (fs_resolve fs f) (encoding self) = Inr df
     \<Longrightarrow> df_columns df \<noteq> [] \<Longrightarrow> 0 < df_index df \<Longrightarrow>
     load self fs [f]
       = Inr [\<lparr>ds_path = fs_resolve fs f, ds_columns = df_columns df, ds_data = df\<rparr>]"
  by (simp add: load_def df_empty_def)

lemma example_load_run1:
  "load example_loader example_fs [''run1.txt''] = Inr [example_datasets ! 0]"
  by (simp add: load_def example_fs_def example_loader_def example_datasets_def
      df_empty_def df_columns_def)

lemma example_load_run2:
  "load example_loader example_fs [''run2.txt''] = Inr [example_datasets ! 1]"
  by (simp add: load_def example_fs_def example_loader_def example_datasets_def
      df_empty_def df_columns_def)

lemma example_load_missing:
  "load example_loader example_fs [''nope.txt'']
     = Inl (DataLoaderError ''File not found: /data/nope.txt'')"
  by (simp add: load_def example_fs_def example_loader_def)

text \<open>
  C1. \<open>load\<close> returns one data set per input path, in input order: a successful call on
  \<open>files\<close> returns as many data sets as there are paths, the \<open>i\<close>-th being what a call on
  the \<open>i\<close>-th path alone returns, with that path resolved. If any one path fails on its
  own, the whole call fails, with the single error of the first failing path and no list
  of results. Nothing is kept between calls: the accumulator starts empty in each call,
  so a call on \<open>files @ rest\<close> is a call on \<open>files\<close> followed by an independent call on
  \<open>rest\<close>.
\<close>

theorem load_one_per_path_or_abort:
  "(load self fs files = Inr ds \<longrightarrow>
      length ds = length files \<and>
      (\<forall>i<length files. load self fs [files ! i] = Inr [ds ! i]
                          \<and> ds_path (ds ! i) = fs_resolve fs (files ! i)))
   \<and> (i < length files \<and> load self fs [files ! i] = Inl e \<longrightarrow>
        (\<exists>j\<le>i. \<exists>e'. load self fs [files ! j] = Inl e' \<and> load self fs files = Inl e'
            \<and> (\<forall>k<j. \<exists>d. load self fs [files ! k] = Inr [d])))
   \<and> load self fs (files @ rest) =
        (case load self fs files of
           Inl e \<Rightarrow> Inl e
         | Inr a \<Rightarrow> (case load self fs rest of Inl e \<Rightarrow> Inl e | Inr b \<Rightarrow> Inr (a @ b)))"
proof (intro conjI impI)
  assume ok: "load self fs files = Inr ds"
  then have both: "length ds = length files
      \<and> (\<forall>i<length files. load self fs [files ! i] = Inr [ds ! i])"
    by (rule load_Inr_iff[THEN iffD1])
  then show "length ds = length files" by blast
  show "\<forall>i<length files. load self fs [files ! i] = Inr [ds ! i]
          \<and> ds_path (ds ! i) = fs_resolve fs (files ! i)"
  proof (intro allI impI)
    fix i assume "i < length files"
    with both have one: "load self fs [files ! i] = Inr [ds ! i]" by blast
    with load_single_cases[of self fs "files ! i"]
    show "load self fs [files ! i] = Inr [ds ! i]
            \<and> ds_path (ds ! i) = fs_resolve fs (files ! i)" by auto
  qed
next
  assume "i < length files \<and> load self fs [files ! i] = Inl e"
  then show "\<exists>j\<le>i. \<exists>e'. load self fs [files ! j] = Inl e' \<and> load self fs files = Inl e'
            \<and> (\<forall>k<j. \<exists>d. load self fs [files ! k] = Inr [d])"
    using load_first_failure by blast
next
  show "load self fs (files @ rest) =
        (case load self fs files of
           Inl e \<Rightarrow> Inl e
         | Inr a \<Rightarrow> (case load self fs rest of Inl e \<Rightarrow> Inl e | Inr b \<Rightarrow> Inr (a @ b)))"
    by (rule load_append)
qed

theorem load_one_per_path_or_abort_witness:
  "load example_loader example_fs [''run1.txt'', ''run2.txt''] = Inr example_datasets
   \<and> length example_datasets = length [''run1.txt'', ''run2.txt'']
   \<and> ds_path (example_datasets ! 1) = fs_resolve example_fs ''run2.txt''
   \<and> load example_loader example_fs [''nope.txt''] 
        = Inl (DataLoaderError ''File not found: /data/nope.txt'')
   \<and> load example_loader example_fs [''run1.txt'', ''nope.txt'', ''run2.txt'']
        = Inl (DataLoaderError ''File not found: /data/nope.txt'')"
proof -
  have ok: "load example_loader example_fs [''run1.txt'', ''run2.txt''] = Inr example_datasets"
    by (simp add: load_def example_fs_def example_loader_def example_datasets_def
        df_empty_def df_columns_def)
  have bad: "(1::nat) < length [''run1.txt'', ''nope.txt'', ''run2.txt'']
      \<and> load example_loader example_fs [[''run1.txt'', ''nope.txt'', ''run2.txt''] ! 1]
          = Inl (DataLoaderError ''File not found: /data/nope.txt'')"
    using example_load_missing by simp
  from load_one_per_path_or_abort[of example_loader example_fs "[''run1.txt'', ''run2.txt'']"
      example_datasets 0 undefined "[]"] ok
  have a: "length example_datasets = length [''run1.txt'', ''run2.txt'']
     \<and> ds_path (example_datasets ! 1) = fs_resolve example_fs ''run2.txt''"
    by simp
  from load_one_per_path_or_abort[of example_loader example_fs
      "[''run1.txt'', ''nope.txt'', ''run2.txt'']" undefined 1
      "DataLoaderError ''File not found: /data/nope.txt''" "[]"] bad
  obtain j e' where j: "j \<le> 1"
    "load example_loader example_fs [[''run1.txt'', ''nope.txt'', ''run2.txt''] ! j] = Inl e'"
    "load example_loader example_fs [''run1.txt'', ''nope.txt'', ''run2.txt''] = Inl e'"
    by blast
  from j(1) have "j = 0 \<or> j = 1" by auto
  with j(2) example_load_run1 example_load_missing
  have "e' = DataLoaderError ''File not found: /data/nope.txt''" by auto
  with j(3) ok a example_load_missing show ?thesis by simp
qed

text \<open>
  C5. For every path of a call whose earlier paths loaded: \<open>load\<close> fails with the
  "File not found" error when the resolved path does not exist; it fails with the
  "contains no data" error when parsing succeeds but the frame has zero data rows (as
  for a header-only file); and when parsing yields a frame with columns and at least one
  row, the path contributes a data set with exactly that frame and its column names.
\<close>

theorem load_not_found_empty_or_table:
  assumes "load self fs before = Inr loaded"
  shows "(\<not> fs_exists fs (fs_resolve fs f) \<longrightarrow>
            load self fs (before @ f # after)
              = Inl (DataLoaderError (''File not found: '' @ fs_resolve fs f)))
       \<and> (fs_exists fs (fs_resolve fs f)
            \<and> fs_read_csv fs (fs_resolve fs f) (encoding self) = Inr df \<and> df_index df = 0 \<longrightarrow>
            load self fs (before @ f # after)
              = Inl (DataLoaderError (''File '' @ fs_resolve fs f @ '' contains no data'')))
       \<and> (fs_exists fs (fs_resolve fs f)
            \<and> fs_read_csv fs (fs_resolve fs f) (encoding self) = Inr df
            \<and> df_columns df \<noteq> [] \<and> 0 < df_index df \<longrightarrow>
            load self fs (before @ [f])
              = Inr (loaded @ [\<lparr>ds_path = fs_resolve fs f, ds_columns = df_columns df,
                                ds_data = df\<rparr>]))"
proof (intro conjI impI)
  assume "\<not> fs_exists fs (fs_resolve fs f)"
  then have "load self fs [f] = Inl (DataLoaderError (''File not found: '' @ fs_resolve fs f))"
    by (rule load_single_not_found)
  then have "load self fs (f # after)
      = Inl (DataLoaderError (''File not found: '' @ fs_resolve fs f))"
    by (subst load_Cons) simp
  with assms show "load self fs (before @ f # after)
      = Inl (DataLoaderError (''File not found: '' @ fs_resolve fs f))"
    by (simp add: load_append)
next
  assume "fs_exists fs (fs_resolve fs f)
            \<and> fs_read_csv fs (fs_resolve fs f) (encoding self) = Inr df \<and> df_index df = 0"
  then have "load self fs [f]
      = Inl (DataLoaderError (''File '' @ fs_resolve fs f @ '' contains no data''))"
    by (simp add: load_single_empty)
  then have "load self fs (f # after)
      = Inl (DataLoaderError (''File '' @ fs_resolve fs f @ '' contains no data''))"
    by (subst load_Cons) simp
  with assms show "load self fs (before @ f # after)
      = Inl (DataLoaderError (''File '' @ fs_resolve fs f @ '' contains no data''))"
    by (simp add: load_append)
next
  assume "fs_exists fs (fs_resolve fs f)
            \<and> fs_read_csv fs (fs_resolve fs f) (encoding self) = Inr df
            \<and> df_columns df \<noteq> [] \<and> 0 < df_index df"
  then have "load self fs [f]
      = Inr [\<lparr>ds_path = fs_resolve fs f, ds_columns = df_columns df, ds_data = df\<rparr>]"
    by (simp add: load_single_ok)
  with assms show "load self fs (before @ [f])
      = Inr (loaded @ [\<lparr>ds_path = fs_resolve fs f, ds_columns = df_columns df,
                        ds_data = df\<rparr>])"
    by (simp add: load_append)
qed

theorem load_not_found_empty_or_table_witness:
  "load example_loader example_fs [''run1.txt''] = Inr [example_datasets ! 0]
   \<and> load example_loader example_fs [''run1.txt'', ''nope.txt'', ''run2.txt'']
       = Inl (DataLoaderError ''File not found: /data/nope.txt'')
   \<and> load example_loader example_fs [''run1.txt'', ''header.txt'', ''run2.txt'']
       = Inl (DataLoaderError ''File /data/header.txt contains no data'')
   \<and> load example_loader example_fs [''run1.txt'', ''run2.txt'']
       = Inr [example_datasets ! 0,
              \<lparr>ds_path = ''/data/run2.txt'', ds_columns = [''u'', ''c''],
               ds_data = \<lparr>df_index = 2, df_data = [(''u'', [0, 1]), (''c'', [7, 8])]\<rparr>\<rparr>]"
proof -
  note h = example_load_run1
  have "\<not> fs_exists example_fs (fs_resolve example_fs ''nope.txt'')"
    by (simp add: example_fs_def)
  with load_not_found_empty_or_table[OF h, of "''nope.txt''" "[''run2.txt'']"]
  have 1: "load example_loader example_fs [''run1.txt'', ''nope.txt'', ''run2.txt'']
       = Inl (DataLoaderError ''File not found: /data/nope.txt'')"
    by (simp add: example_fs_def)
  have "fs_exists example_fs (fs_resolve example_fs ''header.txt'')
      \<and> fs_read_csv example_fs (fs_resolve example_fs ''header.txt'') (encoding example_loader)
          = Inr \<lparr>df_index = 0, df_data = [(''a'', []), (''b'', []), (''c'', [])]\<rparr>"
    by (simp add: example_fs_def)
  with load_not_found_empty_or_table[OF h, of "''header.txt''" "[''run2.txt'']"
      "\<lparr>df_index = 0, df_data = [(''a'', []), (''b'', []), (''c'', [])]\<rparr>"]
  have 2: "load example_loader example_fs [''run1.txt'', ''header.txt'', ''run2.txt'']
       = Inl (DataLoaderError ''File /data/header.txt contains no data'')"
    by (simp add: example_fs_def)
  have "fs_exists example_fs (fs_resolve example_fs ''run2.txt'')
      \<and> fs_read_csv example_fs (fs_resolve example_fs ''run2.txt'') (encoding example_loader)
          = Inr \<lparr>df_index = 2, df_data = [(''u'', [0, 1]), (''c'', [7, 8])]\<rparr>"
    by (simp add: example_fs_def)
  with load_not_found_empty_or_table[OF h, of "''run2.txt''" "[]"
      "\<lparr>df_index = 2, df_data = [(''u'', [0, 1]), (''c'', [7, 8])]\<rparr>"]
  have 3: "load example_loader example_fs [''run1.txt'', ''run2.txt'']
       = Inr [example_datasets ! 0,
              \<lparr>ds_path = ''/data/run2.txt'', ds_columns = [''u'', ''c''],
               ds_data = \<lparr>df_index = 2, df_data = [(''u'', [0, 1]), (''c'', [7, 8])]\<rparr>\<rparr>]"
    by (simp add: example_fs_def df_columns_def)
  from h 1 2 3 show ?thesis by simp
qed

section \<open>Properties of the series lists\<close>

lemma refresh_loop_result:
  "\<forall>sel\<in>set sels. sel_dataset_index sel < length (datasets self) \<Longrightarrow>
   refresh_loop L i sels self =
     (self\<lparr>left_series_indices := left_series_indices self
              @ map fst (filter (\<lambda>(index, selection). sel_axis selection = ''left'')
                           (enumerate i sels)),
           right_series_indices := right_series_indices self
              @ map fst (filter (\<lambda>(index, selection). sel_axis selection \<noteq> ''left'')
                           (enumerate i sels)),
           left_series_listbox := (left_series_listbox self)
              \<lparr>lb_items := lb_items (left_series_listbox self)
                 @ map (series_display L (datasets self))
                     (filter (\<lambda>selection. sel_axis selection = ''left'') sels)\<rparr>,
           right_series_listbox := (right_series_listbox self)
              \<lparr>lb_items := lb_items (right_series_listbox self)
                 @ map (series_display L (datasets self))
                     (filter (\<lambda>selection. sel_axis selection \<noteq> ''left'') sels)\<rparr>\<rparr>,
      None)"
proof (induction sels arbitrary: i self)
  case Nil
  show ?case by simp
next
  case (Cons s sels)
  have ok: "sel_dataset_index s < length (datasets self)" using Cons.prems by simp
  show ?case
  proof (cases "sel_axis s = ''left''")
    case True
    let ?self = "self\<lparr>left_series_indices := left_series_indices self @ [i],
        left_series_listbox := lb_insert_end (left_series_listbox self)
          (series_display L (datasets self) s)\<rparr>"
    have "\<forall>sel\<in>set sels. sel_dataset_index sel < length (datasets ?self)"
      using Cons.prems by simp
    from Cons.IH[OF this, of "Suc i"] ok True show ?thesis
      by (simp add: Let_def series_display_def lb_insert_end_def)
  next
    case False
    let ?self = "self\<lparr>right_series_indices := right_series_indices self @ [i],
        right_series_listbox := lb_insert_end (right_series_listbox self)
          (series_display L (datasets self) s)\<rparr>"
    have "\<forall>sel\<in>set sels. sel_dataset_index sel < length (datasets ?self)"
      using Cons.prems by simp
    from Cons.IH[OF this, of "Suc i"] ok False show ?thesis
      by (simp add: Let_def series_display_def lb_insert_end_def)
  qed
qed

text \<open>Whatever happens, the loop touches only the two index maps and the two lists.\<close>

lemma refresh_loop_frame:
  "apart_from_series_lists (fst (refresh_loop L i sels self)) = apart_from_series_lists self"
proof (induction sels arbitrary: i self)
  case Nil
  show ?case by simp
next
  case (Cons s sels)
  show ?case
  proof (cases "sel_dataset_index s < length (datasets self)")
    case False
    then show ?thesis by simp
  next
    case True
    show ?thesis
    proof (cases "sel_axis s = ''left''")
      case left: True
      let ?self = "self\<lparr>left_series_indices := left_series_indices self @ [i],
        left_series_listbox := lb_insert_end (left_series_listbox self)
          (series_display L (datasets self) s)\<rparr>"
      have "apart_from_series_lists ?self = apart_from_series_lists self"
        by (simp add: apart_from_series_lists_def)
      with Cons.IH[of "Suc i" ?self] True left show ?thesis
        by (simp add: Let_def series_display_def)
    next
      case right: False
      let ?self = "self\<lparr>right_series_indices := right_series_indices self @ [i],
        right_series_listbox := lb_insert_end (right_series_listbox self)
          (series_display L (datasets self) s)\<rparr>"
      have "apart_from_series_lists ?self = apart_from_series_lists self"
        by (simp add: apart_from_series_lists_def)
      with Cons.IH[of "Suc i" ?self] True right show ?thesis
        by (simp add: Let_def series_display_def)
    qed
  qed
qed

lemma refresh_series_lists_frame:
  "apart_from_series_lists (fst (refresh_series_lists L self)) = apart_from_series_lists self"
  unfolding refresh_series_lists_def
  by (subst refresh_loop_frame) (simp add: apart_from_series_lists_def)

lemma refresh_series_lists_ok:
  assumes "indices_valid self"
  shows "refresh_series_lists L self =
     (self\<lparr>left_series_indices :=
              map fst (filter (\<lambda>(index, selection). sel_axis selection = ''left'')
                         (enumerate 0 (series self))),
           right_series_indices :=
              map fst (filter (\<lambda>(index, selection). sel_axis selection \<noteq> ''left'')
                         (enumerate 0 (series self))),
           left_series_listbox :=
              \<lparr>lb_items = map (series_display L (datasets self))
                             (filter (\<lambda>selection. sel_axis selection = ''left'') (series self)),
               lb_cursel = []\<rparr>,
           right_series_listbox :=
              \<lparr>lb_items = map (series_display L (datasets self))
                             (filter (\<lambda>selection. sel_axis selection \<noteq> ''left'') (series self)),
               lb_cursel = []\<rparr>\<rparr>,
      None)"
proof -
  let ?self = "self\<lparr>left_series_listbox := lb_delete_all (left_series_listbox self),
              right_series_listbox := lb_delete_all (right_series_listbox self),
              left_series_indices := [],
              right_series_indices := []\<rparr>"
  have "\<forall>sel\<in>set (series self). sel_dataset_index sel < length (datasets ?self)"
    using assms by (simp add: indices_valid_def list_all_iff)
  from refresh_loop_result[OF this, of L 0] show ?thesis
    by (simp add: refresh_series_lists_def lb_delete_all_def)
qed

lemma enumerate_filter_snd:
  "map snd (filter (\<lambda>(index, x). P x) (enumerate n xs)) = filter P xs"
  by (induction xs arbitrary: n) auto

lemma enumerate_filter_nth:
  "map (\<lambda>i. xs ! i) (map fst (filter (\<lambda>(index, x). P x) (enumerate 0 xs))) = filter P xs"
proof -
  have "map (\<lambda>i. xs ! i) (map fst (filter (\<lambda>(index, x). P x) (enumerate 0 xs)))
      = map snd (filter (\<lambda>(index, x). P x) (enumerate 0 xs))"
    by (auto simp: in_set_enumerate_eq)
  then show ?thesis by (simp add: enumerate_filter_snd)
qed

lemma enumerate_filter_sorted:
  "sorted_wrt (<) (map fst (filter (\<lambda>(index, x). P x) (enumerate n xs)))"
proof -
  have "sorted_wrt (<) (map fst (enumerate n xs))"
    by (simp add: strict_sorted_iff[symmetric] del: strict_sorted_iff)
  then show ?thesis
    by (metis sorted_wrt_filter sorted_wrt_map filter_map comp_def)
qed

text \<open>
  The row \<open>r\<close> of the filtered enumeration points at a position \<open>t\<close> of the list that
  satisfies the filter and has exactly \<open>r\<close> such positions before it.
\<close>

lemma enumerate_filter_position:
  "r < length (filter (\<lambda>(index, x). P x) (enumerate n xs)) \<Longrightarrow>
   t = fst (filter (\<lambda>(index, x). P x) (enumerate n xs) ! r) - n \<Longrightarrow>
   t < length xs \<and> P (xs ! t) \<and> length (filter P (take t xs)) = r"
proof (induction xs arbitrary: n r t)
  case Nil
  then show ?case by simp
next
  case (Cons x xs)
  let ?F = "filter (\<lambda>(index, x). P x) (enumerate (Suc n) xs)"
  have ge: "\<And>k. k < length ?F \<Longrightarrow> Suc n \<le> fst (?F ! k)"
  proof -
    fix k assume "k < length ?F"
    then have "?F ! k \<in> set ?F" by (rule nth_mem)
    then have "?F ! k \<in> set (enumerate (Suc n) xs)" by simp
    then show "Suc n \<le> fst (?F ! k)" by (simp add: in_set_enumerate_eq)
  qed
  show ?case
  proof (cases "P x")
    case True
    show ?thesis
    proof (cases r)
      case 0
      with True Cons.prems show ?thesis by simp
    next
      case (Suc r')
      with True Cons.prems have r': "r' < length ?F" by simp
      from True Suc Cons.prems have t: "t = fst (?F ! r') - n" by simp
      define t' where "t' = fst (?F ! r') - Suc n"
      from ge[OF r'] t have tt: "t = Suc t'" by (simp add: t'_def)
      from Cons.IH[OF r' t'_def] tt True Suc show ?thesis by simp
    qed
  next
    case False
    with Cons.prems have r': "r < length ?F" by simp
    from False Cons.prems have t: "t = fst (?F ! r) - n" by simp
    define t' where "t' = fst (?F ! r) - Suc n"
    from ge[OF r'] t have tt: "t = Suc t'" by (simp add: t'_def)
    from Cons.IH[OF r' t'_def] tt False show ?thesis by simp
  qed
qed

lemma filter_delete_position:
  assumes "t < length xs" "P (xs ! t)" "length (filter P (take t xs)) = r"
  shows "filter P (take t xs @ drop (Suc t) xs)
           = take r (filter P xs) @ drop (Suc r) (filter P xs)"
proof -
  have "xs = take t xs @ xs ! t # drop (Suc t) xs"
    using assms(1) by (rule id_take_nth_drop)
  then have "filter P xs = filter P (take t xs) @ xs ! t # filter P (drop (Suc t) xs)"
    using assms(2) by (metis filter.simps(2) filter_append)
  with assms(3) show ?thesis by simp
qed

lemma filter_delete_other:
  assumes "t < length xs" "\<not> Q (xs ! t)"
  shows "filter Q (take t xs @ drop (Suc t) xs) = filter Q xs"
proof -
  have "xs = take t xs @ xs ! t # drop (Suc t) xs"
    using assms(1) by (rule id_take_nth_drop)
  then have "filter Q xs = filter Q (take t xs) @ filter Q (drop (Suc t) xs)"
    using assms(2) by (metis filter.simps(2) filter_append)
  then show ?thesis by simp
qed

lemma on_axis_cases:
  "on_axis ax = (\<lambda>selection. sel_axis selection = ''left'') \<and> ax = ''left''
   \<or> on_axis ax = (\<lambda>selection. sel_axis selection \<noteq> ''left'') \<and> ax \<noteq> ''left''"
  by (auto simp: on_axis_def fun_eq_iff)

lemma series_widgets_in_sync:
  assumes "lists_in_sync self"
  shows "snd (series_widgets ax self)
           = map fst (filter (\<lambda>(index, selection). on_axis ax selection)
                        (enumerate 0 (series self)))"
  using assms on_axis_cases[of ax]
  by (auto simp: lists_in_sync_def series_widgets_def)

lemma selections_for_axis_in_sync:
  assumes "lists_in_sync self"
  shows "selections_for_axis ax self = filter (on_axis ax) (series self)"
  unfolding selections_for_axis_def series_widgets_in_sync[OF assms]
  by (rule enumerate_filter_nth)

lemma refresh_establishes_sync:
  assumes "indices_valid self"
  shows "snd (refresh_series_lists L self) = None
       \<and> lists_in_sync (fst (refresh_series_lists L self))
       \<and> series (fst (refresh_series_lists L self)) = series self
       \<and> datasets (fst (refresh_series_lists L self)) = datasets self"
  by (simp add: refresh_series_lists_ok[OF assms] lists_in_sync_def)

lemma remove_series_selected:
  assumes valid: "indices_valid self" and sync: "lists_in_sync self"
    and sel: "lb_cursel (fst (series_widgets ax self)) = row # others"
    and row: "row < length (selections_for_axis ax self)"
  defines "target \<equiv> snd (series_widgets ax self) ! row"
  shows "target < length (series self)"
    and "on_axis ax (series self ! target)"
    and "length (filter (on_axis ax) (take target (series self))) = row"
    and "remove_series L ax self =
           refresh_series_lists L
             (self\<lparr>series := take target (series self) @ drop (Suc target) (series self)\<rparr>)"
    and "indices_valid
           (self\<lparr>series := take target (series self) @ drop (Suc target) (series self)\<rparr>)"
proof -
  let ?F = "filter (\<lambda>(index, selection). on_axis ax selection) (enumerate 0 (series self))"
  have im: "snd (series_widgets ax self) = map fst ?F"
    by (rule series_widgets_in_sync[OF sync])
  from row have r: "row < length ?F" by (simp add: selections_for_axis_def im)
  then have t: "target = fst (?F ! row) - 0" by (simp add: target_def im)
  from enumerate_filter_position[OF r t]
  show 1: "target < length (series self)" and "on_axis ax (series self ! target)"
    and "length (filter (on_axis ax) (take target (series self))) = row" by auto
  from r have "row < length (snd (series_widgets ax self))" by (simp add: im)
  with 1 sel show "remove_series L ax self =
           refresh_series_lists L
             (self\<lparr>series := take target (series self) @ drop (Suc target) (series self)\<rparr>)"
    by (simp add: remove_series_def target_def Let_def case_prod_beta)
  have "set (take target (series self) @ drop (Suc target) (series self)) \<subseteq> set (series self)"
    using set_take_subset set_drop_subset by fastforce
  with valid show "indices_valid
           (self\<lparr>series := take target (series self) @ drop (Suc target) (series self)\<rparr>)"
    by (auto simp: indices_valid_def list_all_iff)
qed

text \<open>
  C7. The selections shown for an axis are a stable filter of the master list: after
  \<open>_refresh_series_lists\<close> the index map of an axis is strictly increasing and the
  selections it points at are exactly the selections of that axis in their order in the
  master list. When row \<open>row\<close> of an axis's list is selected, \<open>_remove_series\<close> deletes
  from the master list the selection that row shows and nothing else; afterwards the
  selections shown for that axis are the former ones without row \<open>row\<close>, in the same
  order, and those shown for the other axis are unchanged.
\<close>

theorem selections_for_axis_stable_filter:
  assumes "indices_valid self"
  shows "selections_for_axis ax (fst (refresh_series_lists L self))
           = filter (on_axis ax) (series self)
     \<and> sorted_wrt (<) (snd (series_widgets ax (fst (refresh_series_lists L self))))
     \<and> (lists_in_sync self \<and> lb_cursel (fst (series_widgets ax self)) = row # others
          \<and> row < length (selections_for_axis ax self) \<longrightarrow>
         (let target = snd (series_widgets ax self) ! row;
              self' = fst (remove_series L ax self)
          in snd (remove_series L ax self) = None
           \<and> target < length (series self)
           \<and> series self ! target = selections_for_axis ax self ! row
           \<and> series self' = take target (series self) @ drop (Suc target) (series self)
           \<and> selections_for_axis ax self'
               = take row (selections_for_axis ax self)
                   @ drop (Suc row) (selections_for_axis ax self)
           \<and> (\<forall>ax'. (ax' = ''left'') \<noteq> (ax = ''left'') \<longrightarrow>
                 selections_for_axis ax' self' = selections_for_axis ax' self)))"
proof (intro conjI impI)
  note r = refresh_establishes_sync[OF assms, of L]
  from r show "selections_for_axis ax (fst (refresh_series_lists L self))
           = filter (on_axis ax) (series self)"
    by (simp add: selections_for_axis_in_sync)
  from r have "snd (series_widgets ax (fst (refresh_series_lists L self)))
      = map fst (filter (\<lambda>(index, selection). on_axis ax selection)
                   (enumerate 0 (series self)))"
    by (simp add: series_widgets_in_sync)
  then show "sorted_wrt (<) (snd (series_widgets ax (fst (refresh_series_lists L self))))"
    by (simp only: enumerate_filter_sorted)
next
  assume h: "lists_in_sync self \<and> lb_cursel (fst (series_widgets ax self)) = row # others
          \<and> row < length (selections_for_axis ax self)"
  define target where "target = snd (series_widgets ax self) ! row"
  define new where "new = take target (series self) @ drop (Suc target) (series self)"
  from h have sync: "lists_in_sync self"
    and sel: "lb_cursel (fst (series_widgets ax self)) = row # others"
    and row: "row < length (selections_for_axis ax self)" by auto
  note rs = remove_series_selected[OF assms sync sel row, folded target_def new_def]
  note r = refresh_establishes_sync[OF rs(5), of L]
  from rs(4) r have none: "snd (remove_series L ax self) = None"
    and sync': "lists_in_sync (fst (remove_series L ax self))"
    and ser: "series (fst (remove_series L ax self)) = new" by simp_all
  have sfa: "\<And>a. selections_for_axis a (fst (remove_series L ax self)) = filter (on_axis a) new"
    using sync' ser by (simp add: selections_for_axis_in_sync)
  have sfa0: "\<And>a. selections_for_axis a self = filter (on_axis a) (series self)"
    using sync by (simp add: selections_for_axis_in_sync)
  have at: "series self ! target = selections_for_axis ax self ! row"
    using row by (simp add: selections_for_axis_def target_def)
  have same: "selections_for_axis ax (fst (remove_series L ax self))
               = take row (selections_for_axis ax self)
                   @ drop (Suc row) (selections_for_axis ax self)"
    unfolding sfa sfa0 new_def by (rule filter_delete_position[of target "series self" "on_axis ax" row,
          OF rs(1) rs(2) rs(3)])
  have other: "\<forall>ax'. (ax' = ''left'') \<noteq> (ax = ''left'') \<longrightarrow>
                 selections_for_axis ax' (fst (remove_series L ax self))
                   = selections_for_axis ax' self"
  proof (intro allI impI)
    fix ax' assume "(ax' = ''left'') \<noteq> (ax = ''left'')"
    with rs(2) have "\<not> on_axis ax' (series self ! target)" by (auto simp: on_axis_def)
    from filter_delete_other[of target "series self" "on_axis ax'", OF rs(1) this]
    show "selections_for_axis ax' (fst (remove_series L ax self))
                   = selections_for_axis ax' self"
      unfolding sfa sfa0 new_def .
  qed
  from none rs(1) at ser same other
  show "let target = snd (series_widgets ax self) ! row;
              self' = fst (remove_series L ax self)
          in snd (remove_series L ax self) = None
           \<and> target < length (series self)
           \<and> series self ! target = selections_for_axis ax self ! row
           \<and> series self' = take target (series self) @ drop (Suc target) (series self)
           \<and> selections_for_axis ax self'
               = take row (selections_for_axis ax self)
                   @ drop (Suc row) (selections_for_axis ax self)
           \<and> (\<forall>ax'. (ax' = ''left'') \<noteq> (ax = ''left'') \<longrightarrow>
                 selections_for_axis ax' self' = selections_for_axis ax' self)"
    by (simp add: Let_def target_def[symmetric] new_def[symmetric])
qed

lemmas example_defs =
  example_app_def init_def example_lib_def example_datasets_def example_stem_def
  example_float_def example_mul_def new_color_cycle_def

lemmas series_defs =
  add_series_def current_dataset_index_def current_column_name_def lb_get_def
  cycle_next_def py_or_def py_strip_def py_isspace_def ds_name_def
  refresh_series_lists_def lb_delete_all_def lb_insert_end_def Let_def

lemma example_three_eq:
  "example_three =
     (example_app None)
       \<lparr>series :=
          [\<lparr>sel_dataset_index = 0, sel_column = ''a'', sel_axis = ''left'',
            sel_label = ''run1: a'', sel_color = Some ''C0''\<rparr>,
           \<lparr>sel_dataset_index = 0, sel_column = ''a'', sel_axis = ''right'',
            sel_label = ''run1: a'', sel_color = Some ''C1''\<rparr>,
           \<lparr>sel_dataset_index = 0, sel_column = ''a'', sel_axis = ''left'',
            sel_label = ''run1: a'', sel_color = Some ''C2''\<rparr>],
        color_cycle := \<lparr>cyc_items = [''C0'', ''C1'', ''C2''], cyc_count = 3\<rparr>,
        left_series_indices := [0, 2],
        right_series_indices := [1],
        left_series_listbox :=
          \<lparr>lb_items = [''run1: a [run1/a] (C0)'', ''run1: a [run1/a] (C2)''], lb_cursel = []\<rparr>,
        right_series_listbox :=
          \<lparr>lb_items = [''run1: a [run1/a] (C1)''], lb_cursel = []\<rparr>\<rparr>"
  by (simp add: example_three_def example_defs series_defs)

lemma example_clicked_facts:
  "series example_clicked =
          [\<lparr>sel_dataset_index = 0, sel_column = ''a'', sel_axis = ''left'',
            sel_label = ''run1: a'', sel_color = Some ''C0''\<rparr>,
           \<lparr>sel_dataset_index = 0, sel_column = ''a'', sel_axis = ''right'',
            sel_label = ''run1: a'', sel_color = Some ''C1''\<rparr>,
           \<lparr>sel_dataset_index = 0, sel_column = ''a'', sel_axis = ''left'',
            sel_label = ''run1: a'', sel_color = Some ''C2''\<rparr>]"
  "left_series_indices example_clicked = [0, 2]"
  "right_series_indices example_clicked = [1]"
  "lb_cursel (left_series_listbox example_clicked) = [1]"
  "length (datasets example_clicked) = 2"
  by (simp_all add: example_clicked_def example_three_eq example_app_def example_datasets_def)

theorem selections_for_axis_stable_filter_witness:
  "indices_valid example_clicked \<and> lists_in_sync example_clicked
   \<and> lb_cursel (fst (series_widgets ''left'' example_clicked)) = [1]
   \<and> 1 < length (selections_for_axis ''left'' example_clicked)
   \<and> snd (remove_series example_lib ''left'' example_clicked) = None
   \<and> series (fst (remove_series example_lib ''left'' example_clicked))
       = [\<lparr>sel_dataset_index = 0, sel_column = ''a'', sel_axis = ''left'',
            sel_label = ''run1: a'', sel_color = Some ''C0''\<rparr>,
          \<lparr>sel_dataset_index = 0, sel_column = ''a'', sel_axis = ''right'',
            sel_label = ''run1: a'', sel_color = Some ''C1''\<rparr>]
   \<and> selections_for_axis ''left'' (fst (remove_series example_lib ''left'' example_clicked))
       = [\<lparr>sel_dataset_index = 0, sel_column = ''a'', sel_axis = ''left'',
            sel_label = ''run1: a'', sel_color = Some ''C0''\<rparr>]
   \<and> selections_for_axis ''right'' (fst (remove_series example_lib ''left'' example_clicked))
       = [\<lparr>sel_dataset_index = 0, sel_column = ''a'', sel_axis = ''right'',
            sel_label = ''run1: a'', sel_color = Some ''C1''\<rparr>]"
proof -
  have v: "indices_valid example_clicked"
    by (simp add: indices_valid_def example_clicked_facts)
  have s: "lists_in_sync example_clicked"
    by (simp add: lists_in_sync_def example_clicked_facts)
  have c: "lb_cursel (fst (series_widgets ''left'' example_clicked)) = 1 # []"
    by (simp add: series_widgets_def example_clicked_facts)
  have sfl: "selections_for_axis ''left'' example_clicked =
          [\<lparr>sel_dataset_index = 0, sel_column = ''a'', sel_axis = ''left'',
            sel_label = ''run1: a'', sel_color = Some ''C0''\<rparr>,
           \<lparr>sel_dataset_index = 0, sel_column = ''a'', sel_axis = ''left'',
            sel_label = ''run1: a'', sel_color = Some ''C2''\<rparr>]"
    by (simp add: selections_for_axis_def series_widgets_def example_clicked_facts)
  have sfr: "selections_for_axis ''right'' example_clicked =
          [\<lparr>sel_dataset_index = 0, sel_column = ''a'', sel_axis = ''right'',
            sel_label = ''run1: a'', sel_color = Some ''C1''\<rparr>]"
    by (simp add: selections_for_axis_def series_widgets_def example_clicked_facts)
  have t: "snd (series_widgets ''left'' example_clicked) ! Suc 0 = 2"
    by (simp add: series_widgets_def example_clicked_facts)
  from selections_for_axis_stable_filter[OF v, of "''left''" example_lib 1 "[]"] s c sfl
  have "snd (remove_series example_lib ''left'' example_clicked) = None
     \<and> series (fst (remove_series example_lib ''left'' example_clicked))
         = take 2 (series example_clicked) @ drop (Suc 2) (series example_clicked)
     \<and> selections_for_axis ''left'' (fst (remove_series example_lib ''left'' example_clicked))
         = take 1 (selections_for_axis ''left'' example_clicked)
             @ drop (Suc 1) (selections_for_axis ''left'' example_clicked)
     \<and> selections_for_axis ''right'' (fst (remove_series example_lib ''left'' example_clicked))
         = selections_for_axis ''right'' example_clicked"
    by (simp add: Let_def t)
  with v s c sfl sfr show ?thesis by (simp add: example_clicked_facts)
qed

section \<open>Properties of adding a series\<close>

lemma apart_from_series_lists_fields:
  "datasets (apart_from_series_lists self) = datasets self"
  "series (apart_from_series_lists self) = series self"
  "color_cycle (apart_from_series_lists self) = color_cycle self"
  "x_column_var (apart_from_series_lists self) = x_column_var self"
  "series_label_var (apart_from_series_lists self) = series_label_var self"
  "dataset_list (apart_from_series_lists self) = dataset_list self"
  "column_list (apart_from_series_lists self) = column_list self"
  by (simp_all add: apart_from_series_lists_def)

text \<open>With every check passed, \<open>_add_series\<close> appends and then refreshes the lists.\<close>

lemma add_series_ready:
  assumes "current_dataset_index self = Some di" "di < length (datasets self)"
    "current_column_name self = Some col" "col \<noteq> []" "x_column_var self \<noteq> []"
    "x_column_var self \<in> set (ds_columns (datasets self ! di))"
    "cyc_items (color_cycle self) \<noteq> []"
  shows "add_series L ax self =
     (fst (refresh_series_lists L
        (self\<lparr>color_cycle := (color_cycle self)\<lparr>cyc_count := Suc (cyc_count (color_cycle self))\<rparr>,
              series := series self
                @ [\<lparr>sel_dataset_index = di, sel_column = col, sel_axis = ax,
                     sel_label = py_or (py_strip (series_label_var self))
                                   (ds_name L (datasets self ! di) @ '': '' @ col),
                     sel_color = Some (cyc_items (color_cycle self)
                                   ! (cyc_count (color_cycle self)
                                        mod length (cyc_items (color_cycle self))))\<rparr>],
              series_label_var := []\<rparr>)),
      [],
      snd (refresh_series_lists L
        (self\<lparr>color_cycle := (color_cycle self)\<lparr>cyc_count := Suc (cyc_count (color_cycle self))\<rparr>,
              series := series self
                @ [\<lparr>sel_dataset_index = di, sel_column = col, sel_axis = ax,
                     sel_label = py_or (py_strip (series_label_var self))
                                   (ds_name L (datasets self ! di) @ '': '' @ col),
                     sel_color = Some (cyc_items (color_cycle self)
                                   ! (cyc_count (color_cycle self)
                                        mod length (cyc_items (color_cycle self))))\<rparr>],
              series_label_var := []\<rparr>)))"
  using assms by (simp add: add_series_def Let_def cycle_next_def case_prod_beta)

lemma add_series_ready_fields:
  assumes "current_dataset_index self = Some di" "di < length (datasets self)"
    "current_column_name self = Some col" "col \<noteq> []" "x_column_var self \<noteq> []"
    "x_column_var self \<in> set (ds_columns (datasets self ! di))"
    "cyc_items (color_cycle self) \<noteq> []"
  shows "series (fst (add_series L ax self)) = series self
           @ [\<lparr>sel_dataset_index = di, sel_column = col, sel_axis = ax,
                sel_label = py_or (py_strip (series_label_var self))
                              (ds_name L (datasets self ! di) @ '': '' @ col),
                sel_color = Some (cyc_items (color_cycle self)
                              ! (cyc_count (color_cycle self)
                                   mod length (cyc_items (color_cycle self))))\<rparr>]"
    and "color_cycle (fst (add_series L ax self))
           = (color_cycle self)\<lparr>cyc_count := Suc (cyc_count (color_cycle self))\<rparr>"
    and "datasets (fst (add_series L ax self)) = datasets self"
    and "x_column_var (fst (add_series L ax self)) = x_column_var self"
    and "dataset_list (fst (add_series L ax self)) = dataset_list self"
    and "column_list (fst (add_series L ax self)) = column_list self"
    and "series_label_var (fst (add_series L ax self)) = []"
proof -
  let ?mid = "self\<lparr>color_cycle := (color_cycle self)\<lparr>cyc_count := Suc (cyc_count (color_cycle self))\<rparr>,
              series := series self
                @ [\<lparr>sel_dataset_index = di, sel_column = col, sel_axis = ax,
                     sel_label = py_or (py_strip (series_label_var self))
                                   (ds_name L (datasets self ! di) @ '': '' @ col),
                     sel_color = Some (cyc_items (color_cycle self)
                                   ! (cyc_count (color_cycle self)
                                        mod length (cyc_items (color_cycle self))))\<rparr>],
              series_label_var := []\<rparr>"
  have a: "fst (add_series L ax self) = fst (refresh_series_lists L ?mid)"
    by (simp add: add_series_ready[OF assms])
  have f: "apart_from_series_lists (fst (add_series L ax self)) = apart_from_series_lists ?mid"
    unfolding a by (rule refresh_series_lists_frame)
  from arg_cong[OF f, of series] arg_cong[OF f, of color_cycle] arg_cong[OF f, of datasets]
    arg_cong[OF f, of x_column_var] arg_cong[OF f, of dataset_list]
    arg_cong[OF f, of column_list] arg_cong[OF f, of series_label_var]
  show "series (fst (add_series L ax self)) = series self
           @ [\<lparr>sel_dataset_index = di, sel_column = col, sel_axis = ax,
                sel_label = py_or (py_strip (series_label_var self))
                              (ds_name L (datasets self ! di) @ '': '' @ col),
                sel_color = Some (cyc_items (color_cycle self)
                              ! (cyc_count (color_cycle self)
                                   mod length (cyc_items (color_cycle self))))\<rparr>]"
    and "color_cycle (fst (add_series L ax self))
           = (color_cycle self)\<lparr>cyc_count := Suc (cyc_count (color_cycle self))\<rparr>"
    and "datasets (fst (add_series L ax self)) = datasets self"
    and "x_column_var (fst (add_series L ax self)) = x_column_var self"
    and "dataset_list (fst (add_series L ax self)) = dataset_list self"
    and "column_list (fst (add_series L ax self)) = column_list self"
    and "series_label_var (fst (add_series L ax self)) = []"
    by (simp_all add: apart_from_series_lists_fields)
qed

text \<open>Every way in which \<open>_add_series\<close> stops before appending leaves the application as it was.\<close>

lemma add_series_not_ready:
  assumes "current_dataset_index self = None \<or> current_column_name self = None
      \<or> current_column_name self = Some [] \<or> x_column_var self = []
      \<or> (\<exists>di. current_dataset_index self = Some di
            \<and> (\<not> di < length (datasets self)
                 \<or> x_column_var self \<notin> set (ds_columns (datasets self ! di))))
      \<or> cyc_items (color_cycle self) = []"
  shows "fst (add_series L ax self) = self
     \<and> (fst (snd (add_series L ax self)) \<noteq> [] \<or> snd (snd (add_series L ax self)) \<noteq> None)"
  using assms
  by (auto simp: add_series_def Let_def cycle_next_def split: option.splits)

text \<open>
  C10. Besides a selected data set and column, \<open>_add_series\<close> needs the x-axis column:
  with no x-axis column chosen it shows the "Select X column" dialogue, and with an
  x-axis column that is not among the columns of the selected data set it shows the
  "Column unavailable" error; in both cases the application, and so the selection list,
  is unchanged, whatever the selected column is. With the x-axis column present (and a
  colour to hand out) one selection is appended.
\<close>

theorem add_series_needs_x_column:
  assumes "current_dataset_index self = Some di" "di < length (datasets self)"
    "current_column_name self = Some col" "col \<noteq> []"
  shows "(x_column_var self = [] \<longrightarrow>
            add_series L ax self =
              (self, [ShowInfo ''Select X column'' ''Choose a column to use for the X axis.''],
               None))
       \<and> (x_column_var self \<noteq> []
            \<and> x_column_var self \<notin> set (ds_columns (datasets self ! di)) \<longrightarrow>
            add_series L ax self =
              (self,
               [ShowError ''Column unavailable''
                  (''Dataset '' @ CHR 0x27 # ds_name L (datasets self ! di)
                     @ ''' does not contain column '' @ CHR 0x27 # x_column_var self @ '''.'')],
               None))
       \<and> (x_column_var self \<noteq> []
            \<and> x_column_var self \<in> set (ds_columns (datasets self ! di))
            \<and> cyc_items (color_cycle self) \<noteq> [] \<longrightarrow>
            length (series (fst (add_series L ax self))) = Suc (length (series self)))"
proof (intro conjI impI)
  assume "x_column_var self = []"
  with assms show "add_series L ax self =
      (self, [ShowInfo ''Select X column'' ''Choose a column to use for the X axis.''], None)"
    by (simp add: add_series_def)
next
  assume "x_column_var self \<noteq> []
            \<and> x_column_var self \<notin> set (ds_columns (datasets self ! di))"
  with assms show "add_series L ax self =
              (self,
               [ShowError ''Column unavailable''
                  (''Dataset '' @ CHR 0x27 # ds_name L (datasets self ! di)
                     @ ''' does not contain column '' @ CHR 0x27 # x_column_var self @ '''.'')],
               None)"
    by (simp add: add_series_def Let_def)
next
  assume "x_column_var self \<noteq> []
            \<and> x_column_var self \<in> set (ds_columns (datasets self ! di))
            \<and> cyc_items (color_cycle self) \<noteq> []"
  then have "x_column_var self \<noteq> []"
    "x_column_var self \<in> set (ds_columns (datasets self ! di))"
    "cyc_items (color_cycle self) \<noteq> []" by auto
  from add_series_ready_fields(1)[OF assms this]
  show "length (series (fst (add_series L ax self))) = Suc (length (series self))" by simp
qed

lemma example_app_ready:
  "current_dataset_index (example_app rc) = Some 0"
  "datasets (example_app rc) = example_datasets"
  "example_datasets \<noteq> []"
  "current_column_name (example_app rc) = Some ''a''"
  "ds_columns (example_datasets ! 0) = [''t'', ''a'', ''b'']"
  "x_column_var (example_app rc) = ''t''"
  "series (example_app rc) = []"
  "series_label_var (example_app rc) = []"
  "color_cycle (example_app rc) = new_color_cycle rc"
  by (simp_all add: example_app_def init_def current_dataset_index_def current_column_name_def
      lb_get_def example_datasets_def)

theorem add_series_needs_x_column_witness:
  "add_series example_lib ''left'' ((example_app None)\<lparr>x_column_var := []\<rparr>)
     = ((example_app None)\<lparr>x_column_var := []\<rparr>,
        [ShowInfo ''Select X column'' ''Choose a column to use for the X axis.''], None)
   \<and> ''a'' \<in> set (ds_columns (datasets (example_app None) ! 0))
   \<and> add_series example_lib ''left'' ((example_app None)\<lparr>x_column_var := ''u''\<rparr>)
     = ((example_app None)\<lparr>x_column_var := ''u''\<rparr>,
        [ShowError ''Column unavailable''
           (''Dataset '' @ CHR 0x27 # ''run1'' @ ''' does not contain column ''
              @ CHR 0x27 # ''u'' @ '''.'')], None)
   \<and> length (series (fst (add_series example_lib ''left'' (example_app None)))) = 1"
proof -
  have r: "\<And>x. current_dataset_index ((example_app None)\<lparr>x_column_var := x\<rparr>) = Some 0"
    "\<And>x. 0 < length (datasets ((example_app None)\<lparr>x_column_var := x\<rparr>))"
    "\<And>x. current_column_name ((example_app None)\<lparr>x_column_var := x\<rparr>) = Some ''a''"
    "''a'' \<noteq> []"
    by (simp_all add: example_app_def init_def current_dataset_index_def
        current_column_name_def lb_get_def example_datasets_def)
  have n: "ds_name example_lib (example_datasets ! 0) = ''run1''"
    by (simp add: ds_name_def example_lib_def example_stem_def example_datasets_def)
  have d: "\<And>x. datasets ((example_app None)\<lparr>x_column_var := x\<rparr>) ! 0 = example_datasets ! 0"
    by (simp add: example_app_def)
  note t = add_series_needs_x_column[OF r, of _ example_lib "''left''"]
  from t[of "[]"] have 1:
    "add_series example_lib ''left'' ((example_app None)\<lparr>x_column_var := []\<rparr>)
     = ((example_app None)\<lparr>x_column_var := []\<rparr>,
        [ShowInfo ''Select X column'' ''Choose a column to use for the X axis.''], None)"
    by simp
  from t[of "''u''"] have 2:
    "add_series example_lib ''left'' ((example_app None)\<lparr>x_column_var := ''u''\<rparr>)
     = ((example_app None)\<lparr>x_column_var := ''u''\<rparr>,
        [ShowError ''Column unavailable''
           (''Dataset '' @ CHR 0x27 # ''run1'' @ ''' does not contain column ''
              @ CHR 0x27 # ''u'' @ '''.'')], None)"
    by (simp add: d n example_app_ready)
  have e: "(example_app None)\<lparr>x_column_var := ''t''\<rparr> = example_app None"
    by (simp add: example_app_def)
  from t[of "''t''"] have 3:
    "length (series (fst (add_series example_lib ''left'' (example_app None)))) = 1"
    by (simp add: e example_app_ready new_color_cycle_def)
  have 4: "''a'' \<in> set (ds_columns (datasets (example_app None) ! 0))"
    by (simp add: example_app_ready)
  from 1 2 3 4 show ?thesis by simp
qed

text \<open>
  C3, against the claim as stated: \<open>_add_series\<close> checks neither the axis tag nor that
  the column belongs to the data set. Called with the tag \<open>"top"\<close> it appends a
  selection carrying that tag, and with a column list showing \<open>zz\<close>, which is no column
  of the selected data set, it appends a selection for \<open>zz\<close>; no dialogue, no exception.
\<close>

theorem add_series_unchecked_counterexample:
  "''top'' \<noteq> ''left'' \<and> ''top'' \<noteq> ''right''
   \<and> snd (add_series example_lib ''top'' (example_app None)) = ([], None)
   \<and> series (example_app None) = []
   \<and> series (fst (add_series example_lib ''top'' (example_app None)))
       = [\<lparr>sel_dataset_index = 0, sel_column = ''a'', sel_axis = ''top'',
            sel_label = ''run1: a'', sel_color = Some ''C0''\<rparr>]
   \<and> ''zz'' \<notin> set (ds_columns (datasets (example_app None) ! 0))
   \<and> snd (add_series example_lib ''left''
             ((example_app None)\<lparr>column_list := \<lparr>lb_items = [''zz''], lb_cursel = [0]\<rparr>\<rparr>))
       = ([], None)
   \<and> series (fst (add_series example_lib ''left''
             ((example_app None)\<lparr>column_list := \<lparr>lb_items = [''zz''], lb_cursel = [0]\<rparr>\<rparr>)))
       = [\<lparr>sel_dataset_index = 0, sel_column = ''zz'', sel_axis = ''left'',
            sel_label = ''run1: zz'', sel_color = Some ''C0''\<rparr>]"
  by (simp add: example_defs series_defs)

text \<open>
  C3, amended. \<open>_add_series\<close> fails, leaving the application and so the selection list
  unchanged and showing a dialogue or raising, when no data set or no column is
  selected, when no x-axis column is chosen, when the index of the selected data set is
  out of range (\<open>IndexError\<close>), when the x-axis column is not among that data set's
  columns, or when the palette is empty. Otherwise it appends one selection, carrying
  the column name and the axis tag it was given, whatever they are.
\<close>

theorem add_series_failures_leave_series:
  "(current_dataset_index self = None \<or> current_column_name self = None
      \<or> current_column_name self = Some [] \<or> x_column_var self = []
      \<or> (\<exists>i. current_dataset_index self = Some i
            \<and> (\<not> i < length (datasets self)
                 \<or> x_column_var self \<notin> set (ds_columns (datasets self ! i))))
      \<or> cyc_items (color_cycle self) = [] \<longrightarrow>
      fst (add_series L ax self) = self
      \<and> (fst (snd (add_series L ax self)) \<noteq> [] \<or> snd (snd (add_series L ax self)) \<noteq> None))
   \<and> (current_dataset_index self = Some di \<and> \<not> di < length (datasets self)
        \<and> current_column_name self = Some col \<and> col \<noteq> [] \<and> x_column_var self \<noteq> [] \<longrightarrow>
        add_series L ax self = (self, [], Some IndexError))
   \<and> (current_dataset_index self = Some di \<and> di < length (datasets self)
        \<and> current_column_name self = Some col \<and> col \<noteq> [] \<and> x_column_var self \<noteq> []
        \<and> x_column_var self \<in> set (ds_columns (datasets self ! di))
        \<and> cyc_items (color_cycle self) \<noteq> [] \<longrightarrow>
        (\<exists>new. series (fst (add_series L ax self)) = series self @ [new]
           \<and> sel_dataset_index new = di \<and> sel_column new = col \<and> sel_axis new = ax))"
proof (intro conjI impI)
  assume "current_dataset_index self = None \<or> current_column_name self = None
      \<or> current_column_name self = Some [] \<or> x_column_var self = []
      \<or> (\<exists>i. current_dataset_index self = Some i
            \<and> (\<not> i < length (datasets self)
                 \<or> x_column_var self \<notin> set (ds_columns (datasets self ! i))))
      \<or> cyc_items (color_cycle self) = []"
  from add_series_not_ready[OF this, of L ax]
  show "fst (add_series L ax self) = self"
    and "fst (snd (add_series L ax self)) \<noteq> [] \<or> snd (snd (add_series L ax self)) \<noteq> None"
    by auto
next
  assume "current_dataset_index self = Some di \<and> \<not> di < length (datasets self)
        \<and> current_column_name self = Some col \<and> col \<noteq> [] \<and> x_column_var self \<noteq> []"
  then show "add_series L ax self = (self, [], Some IndexError)"
    by (simp add: add_series_def)
next
  assume "current_dataset_index self = Some di \<and> di < length (datasets self)
        \<and> current_column_name self = Some col \<and> col \<noteq> [] \<and> x_column_var self \<noteq> []
        \<and> x_column_var self \<in> set (ds_columns (datasets self ! di))
        \<and> cyc_items (color_cycle self) \<noteq> []"
  then have r: "current_dataset_index self = Some di" "di < length (datasets self)"
    "current_column_name self = Some col" "col \<noteq> []" "x_column_var self \<noteq> []"
    "x_column_var self \<in> set (ds_columns (datasets self ! di))"
    "cyc_items (color_cycle self) \<noteq> []" by auto
  show "\<exists>new. series (fst (add_series L ax self)) = series self @ [new]
           \<and> sel_dataset_index new = di \<and> sel_column new = col \<and> sel_axis new = ax"
    using add_series_ready_fields(1)[OF r, of L ax] by simp
qed

theorem add_series_failures_leave_series_witness:
  "current_dataset_index (init None :: (real, real) plot_application) = None
   \<and> fst (add_series example_lib ''left'' (init None)) = init None
   \<and> snd (add_series example_lib ''left'' (init None))
       = ([ShowInfo ''Select dataset'' ''Choose a dataset before adding a series.''], None)
   \<and> add_series example_lib ''left''
        ((example_app None)\<lparr>dataset_list := \<lparr>lb_items = [''run1'', ''run2''], lb_cursel = [5]\<rparr>\<rparr>)
       = ((example_app None)\<lparr>dataset_list := \<lparr>lb_items = [''run1'', ''run2''], lb_cursel = [5]\<rparr>\<rparr>,
          [], Some IndexError)
   \<and> (\<exists>new. series (fst (add_series example_lib ''top'' (example_app None))) = [new]
         \<and> sel_dataset_index new = 0 \<and> sel_column new = ''a'' \<and> sel_axis new = ''top'')"
proof -
  have n: "current_dataset_index (init None :: (real, real) plot_application) = None"
    by (simp add: init_def current_dataset_index_def)
  with add_series_failures_leave_series[of "init None" example_lib "''left''" 0 "[]"]
  have 1: "fst (add_series example_lib ''left'' (init None)) = init None" by simp
  have 2: "snd (add_series example_lib ''left'' (init None))
       = ([ShowInfo ''Select dataset'' ''Choose a dataset before adding a series.''], None)"
    using n by (simp add: add_series_def)
  let ?bad = "(example_app None)\<lparr>dataset_list := \<lparr>lb_items = [''run1'', ''run2''], lb_cursel = [5]\<rparr>\<rparr>"
  have "current_dataset_index ?bad = Some 5 \<and> \<not> 5 < length (datasets ?bad)
        \<and> current_column_name ?bad = Some ''a'' \<and> ''a'' \<noteq> [] \<and> x_column_var ?bad \<noteq> []"
    by (simp add: example_app_def init_def current_dataset_index_def current_column_name_def
        lb_get_def example_datasets_def)
  with add_series_failures_leave_series[of ?bad example_lib "''left''" 5 "''a''"]
  have 3: "add_series example_lib ''left'' ?bad = (?bad, [], Some IndexError)" by blast
  have "current_dataset_index (example_app None) = Some 0
        \<and> 0 < length (datasets (example_app None))
        \<and> current_column_name (example_app None) = Some ''a'' \<and> ''a'' \<noteq> []
        \<and> x_column_var (example_app None) \<noteq> []
        \<and> x_column_var (example_app None) \<in> set (ds_columns (datasets (example_app None) ! 0))
        \<and> cyc_items (color_cycle (example_app None)) \<noteq> []"
    by (simp add: example_app_ready new_color_cycle_def)
  with add_series_failures_leave_series[of "example_app None" example_lib "''top''" 0 "''a''"]
  have 4: "\<exists>new. series (fst (add_series example_lib ''top'' (example_app None)))
            = series (example_app None) @ [new]
         \<and> sel_dataset_index new = 0 \<and> sel_column new = ''a'' \<and> sel_axis new = ''top''"
    by blast
  from n 1 2 3 4 show ?thesis by (simp add: example_app_ready)
qed

lemma cycle_positions_differ:
  assumes "3 \<le> k"
  shows "n mod k \<noteq> Suc n mod k" "n mod k \<noteq> Suc (Suc n) mod k" "Suc n mod k \<noteq> Suc (Suc n) mod k"
proof -
  have d: "\<And>a b. a \<le> b \<Longrightarrow> a mod k = b mod k \<Longrightarrow> k dvd b - a"
    by (metis mod_eq_dvd_iff_nat)
  show "n mod k \<noteq> Suc n mod k"
  proof
    assume "n mod k = Suc n mod k"
    from d[OF _ this] have "k dvd 1" by simp
    with assms show False by simp
  qed
  show "n mod k \<noteq> Suc (Suc n) mod k"
  proof
    assume "n mod k = Suc (Suc n) mod k"
    from d[OF _ this] have "k dvd 2" by simp
    then have "k \<le> 2" by (rule dvd_imp_le) simp
    with assms show False by simp
  qed
  show "Suc n mod k \<noteq> Suc (Suc n) mod k"
  proof
    assume "Suc n mod k = Suc (Suc n) mod k"
    from d[OF _ this] have "k dvd 1" by simp
    with assms show False by simp
  qed
qed

lemma current_selection_cong:
  "dataset_list s' = dataset_list s \<Longrightarrow> current_dataset_index s' = current_dataset_index s"
  "column_list s' = column_list s \<Longrightarrow> current_column_name s' = current_column_name s"
  by (simp_all add: current_dataset_index_def current_column_name_def Let_def)

text \<open>
  C6, against the claim as stated: with a colour cycle of two entries configured, three
  series added in a row get the colours \<open>r\<close>, \<open>g\<close>, \<open>r\<close>, which are not distinct.
\<close>

theorem add_series_three_colors_counterexample:
  "map sel_color
     (series (fst (add_series example_lib ''left''
        (fst (add_series example_lib ''left''
           (fst (add_series example_lib ''left'' (example_app (Some [''r'', ''g''])))))))))
     = [Some ''r'', Some ''g'', Some ''r'']
   \<and> \<not> distinct [Some ''r'', Some ''g'', Some ''r'']"
  by (simp add: example_defs series_defs)

text \<open>
  C6, amended. A successful \<open>_add_series\<close> appends a selection whose label is the
  stripped label field, or \<open>"<data set name>: <column>"\<close> when that field is blank, and
  whose colour is the palette entry at the cursor, the number of colours handed out so
  far modulo the length of the palette; the cursor then advances by one. So three
  series added in a row get the palette entries at three consecutive cursor positions,
  which depends on nothing but the palette and the cursor, and these three colours are
  distinct provided the palette has at least three entries, all different (as the
  fallback \<open>C0\<close>, \<open>C1\<close>, \<open>C2\<close> has).
\<close>

theorem add_series_label_and_color:
  assumes "current_dataset_index self = Some di" "di < length (datasets self)"
    "current_column_name self = Some col" "col \<noteq> []" "x_column_var self \<noteq> []"
    "x_column_var self \<in> set (ds_columns (datasets self ! di))"
    and "cyc_items (color_cycle self) = palette" "palette \<noteq> []"
    and "cyc_count (color_cycle self) = n"
  shows "series (fst (add_series L a1 self)) = series self
           @ [\<lparr>sel_dataset_index = di, sel_column = col, sel_axis = a1,
                sel_label = (if py_strip (series_label_var self) = []
                             then ds_name L (datasets self ! di) @ '': '' @ col
                             else py_strip (series_label_var self)),
                sel_color = Some (palette ! (n mod length palette))\<rparr>]
     \<and> color_cycle (fst (add_series L a1 self)) = \<lparr>cyc_items = palette, cyc_count = Suc n\<rparr>
     \<and> map sel_color
          (drop (length (series self))
             (series (fst (add_series L a3
                (fst (add_series L a2 (fst (add_series L a1 self))))))))
         = [Some (palette ! (n mod length palette)),
            Some (palette ! (Suc n mod length palette)),
            Some (palette ! (Suc (Suc n) mod length palette))]
     \<and> (distinct palette \<and> 3 \<le> length palette \<longrightarrow>
          distinct (map sel_color
            (drop (length (series self))
               (series (fst (add_series L a3
                  (fst (add_series L a2 (fst (add_series L a1 self))))))))))"
proof -
  define s1 where "s1 = fst (add_series L a1 self)"
  define s2 where "s2 = fst (add_series L a2 s1)"
  define s3 where "s3 = fst (add_series L a3 s2)"
  have ne: "cyc_items (color_cycle self) \<noteq> []" using assms(7,8) by simp
  note f1 = add_series_ready_fields[OF assms(1-6) ne, of L a1, folded s1_def]
  have c1: "color_cycle s1 = \<lparr>cyc_items = palette, cyc_count = Suc n\<rparr>"
    using f1(2) assms(7,9) by (cases "color_cycle self") simp
  have r1: "current_dataset_index s1 = Some di" "di < length (datasets s1)"
    "current_column_name s1 = Some col" "col \<noteq> []" "x_column_var s1 \<noteq> []"
    "x_column_var s1 \<in> set (ds_columns (datasets s1 ! di))"
    "cyc_items (color_cycle s1) \<noteq> []"
    using assms(1-6,8) f1(3,4) c1 current_selection_cong(1)[OF f1(5)]
      current_selection_cong(2)[OF f1(6)]
    by simp_all
  note f2 = add_series_ready_fields[OF r1, of L a2, folded s2_def]
  have c2: "color_cycle s2 = \<lparr>cyc_items = palette, cyc_count = Suc (Suc n)\<rparr>"
    using f2(2) c1 by simp
  have r2: "current_dataset_index s2 = Some di" "di < length (datasets s2)"
    "current_column_name s2 = Some col" "col \<noteq> []" "x_column_var s2 \<noteq> []"
    "x_column_var s2 \<in> set (ds_columns (datasets s2 ! di))"
    "cyc_items (color_cycle s2) \<noteq> []"
    using r1(1-6) assms(8) f2(3,4) c2 current_selection_cong(1)[OF f2(5)]
      current_selection_cong(2)[OF f2(6)]
    by simp_all
  note f3 = add_series_ready_fields[OF r2, of L a3, folded s3_def]
  have first: "series s1 = series self
           @ [\<lparr>sel_dataset_index = di, sel_column = col, sel_axis = a1,
                sel_label = (if py_strip (series_label_var self) = []
                             then ds_name L (datasets self ! di) @ '': '' @ col
                             else py_strip (series_label_var self)),
                sel_color = Some (palette ! (n mod length palette))\<rparr>]"
    using f1(1) assms(7,9) by (simp add: py_or_def)
  have three: "map sel_color (drop (length (series self)) (series s3))
         = [Some (palette ! (n mod length palette)),
            Some (palette ! (Suc n mod length palette)),
            Some (palette ! (Suc (Suc n) mod length palette))]"
    using f3(1) f2(1) first c1 c2 by simp
  have dist: "distinct palette \<and> 3 \<le> length palette \<longrightarrow>
          distinct (map sel_color (drop (length (series self)) (series s3)))"
  proof
    assume h: "distinct palette \<and> 3 \<le> length palette"
    then have k: "3 \<le> length palette" and d: "distinct palette" by auto
    from assms(8) have "0 < length palette" by simp
    then have lt: "n mod length palette < length palette"
      "Suc n mod length palette < length palette"
      "Suc (Suc n) mod length palette < length palette" by simp_all
    from cycle_positions_differ[OF k, of n] lt d
    have "palette ! (n mod length palette) \<noteq> palette ! (Suc n mod length palette)"
      "palette ! (n mod length palette) \<noteq> palette ! (Suc (Suc n) mod length palette)"
      "palette ! (Suc n mod length palette) \<noteq> palette ! (Suc (Suc n) mod length palette)"
      by (simp_all add: nth_eq_iff_index_eq)
    then show "distinct (map sel_color (drop (length (series self)) (series s3)))"
      unfolding three by simp
  qed
  from first c1 three dist show ?thesis
    unfolding s1_def s2_def s3_def by blast
qed

theorem add_series_label_and_color_witness:
  "series (fst (add_series example_lib ''left'' (example_app None)))
     = [\<lparr>sel_dataset_index = 0, sel_column = ''a'', sel_axis = ''left'',
          sel_label = ''run1: a'', sel_color = Some ''C0''\<rparr>]
   \<and> map sel_color
        (series (fst (add_series example_lib ''left''
           (fst (add_series example_lib ''right''
              (fst (add_series example_lib ''left'' (example_app None))))))))
       = [Some ''C0'', Some ''C1'', Some ''C2'']
   \<and> distinct [Some ''C0'', Some ''C1'', Some ''C2'']"
proof -
  have r: "current_dataset_index (example_app None) = Some 0"
    "0 < length (datasets (example_app None))"
    "current_column_name (example_app None) = Some ''a''" "''a'' \<noteq> []"
    "x_column_var (example_app None) \<noteq> []"
    "x_column_var (example_app None) \<in> set (ds_columns (datasets (example_app None) ! 0))"
    "cyc_items (color_cycle (example_app None)) = [''C0'', ''C1'', ''C2'']"
    "[''C0'', ''C1'', ''C2''] \<noteq> []"
    "cyc_count (color_cycle (example_app None)) = 0"
    by (simp_all add: example_app_ready new_color_cycle_def)
  have n: "ds_name example_lib (example_datasets ! 0) = ''run1''"
    by (simp add: ds_name_def example_lib_def example_stem_def example_datasets_def
        example_app_ready)
  from add_series_label_and_color[OF r, of example_lib "''left''" "''left''" "''right''"]
  show ?thesis
    by (simp add: example_app_ready n py_strip_def)
qed

section \<open>Properties of plotting\<close>

lemma series_line_SomeD:
  assumes "series_line L dsets x_column nf s = Some line"
  shows "drawable dsets x_column s"
    and "\<exists>x_data y_data x_scaled y_scaled.
           df_getitem (ds_data (dsets ! sel_dataset_index s)) x_column = Some x_data
         \<and> df_getitem (ds_data (dsets ! sel_dataset_index s)) (sel_column s) = Some y_data
         \<and> series_mul L x_data (nf_x_scale nf) = Inr x_scaled
         \<and> series_mul L y_data (if sel_axis s = ''left'' then nf_left_y_scale nf
                                  else nf_right_y_scale nf) = Inr y_scaled
         \<and> line = \<lparr>ln_xdata = x_scaled, ln_ydata = y_scaled,
                     ln_label = sel_label s, ln_color = sel_color s\<rparr>"
  using assms
  by (auto simp: series_line_def Let_def split: if_splits option.splits sum.splits)

lemma series_line_not_drawable:
  "\<not> drawable dsets x_column s \<Longrightarrow> series_line L dsets x_column nf s = None"
  by (simp add: series_line_def)

text \<open>One round of the loop on a selection that cannot be drawn: a warning, nothing else.\<close>

lemma plot_loop_skip:
  assumes "sel_dataset_index s < length dsets" "\<not> drawable dsets x_column s"
  shows "plot_loop L dsets x_column nf (s # rest) st =
           plot_loop L dsets x_column nf rest
             (st\<lparr>ps_events := ps_events st @ [missing_column_warning L dsets x_column s]\<rparr>)"
  using assms by (auto simp: drawable_def missing_column_warning_def Let_def)

text \<open>One round of the loop on a selection that is drawn.\<close>

lemma plot_loop_draw:
  assumes "sel_dataset_index s < length dsets"
    "series_line L dsets x_column nf s = Some line"
  shows "plot_loop L dsets x_column nf (s # rest) st =
           plot_loop L dsets x_column nf rest
             (if sel_axis s = ''left'' then
                st\<lparr>ps_ax_left := axes_plot (ps_ax_left st) line,
                    ps_legend_handles := ps_legend_handles st @ [line],
                    ps_legend_labels := ps_legend_labels st @ [sel_label s]\<rparr>
              else
                st\<lparr>ps_ax_right :=
                      Some (axes_plot (case ps_ax_right st of None \<Rightarrow> new_axes | Some a \<Rightarrow> a)
                              line),
                    ps_legend_handles := ps_legend_handles st @ [line],
                    ps_legend_labels := ps_legend_labels st @ [sel_label s]\<rparr>)"
proof -
  from series_line_SomeD[OF assms(2)] obtain x_data y_data x_scaled y_scaled where
    d: "drawable dsets x_column s"
    and g: "df_getitem (ds_data (dsets ! sel_dataset_index s)) x_column = Some x_data"
      "df_getitem (ds_data (dsets ! sel_dataset_index s)) (sel_column s) = Some y_data"
      "series_mul L x_data (nf_x_scale nf) = Inr x_scaled"
      "series_mul L y_data (if sel_axis s = ''left'' then nf_left_y_scale nf
                            else nf_right_y_scale nf) = Inr y_scaled"
      "line = \<lparr>ln_xdata = x_scaled, ln_ydata = y_scaled,
                ln_label = sel_label s, ln_color = sel_color s\<rparr>"
    by blast
  show ?thesis
  proof (cases "sel_axis s = ''left''")
    case True
    with assms(1) d g show ?thesis by (simp add: drawable_def Let_def)
  next
    case False
    with assms(1) d g show ?thesis by (simp add: drawable_def Let_def)
  qed
qed

text \<open>
  The whole loop, when every selection refers to a loaded data set and no
  multiplication raises on a selection that can be drawn.
\<close>

lemma plot_loop_ok:
  assumes "\<forall>s\<in>set sels. sel_dataset_index s < length dsets"
    "\<forall>s\<in>set sels. drawable dsets x_column s \<longrightarrow> series_line L dsets x_column nf s \<noteq> None"
  shows "snd (plot_loop L dsets x_column nf sels st) = None
     \<and> ps_events (fst (plot_loop L dsets x_column nf sels st))
         = ps_events st
           @ map (missing_column_warning L dsets x_column)
               (filter (\<lambda>s. \<not> drawable dsets x_column s) sels)
     \<and> ax_lines (ps_ax_left (fst (plot_loop L dsets x_column nf sels st)))
         = ax_lines (ps_ax_left st)
           @ List.map_filter (series_line L dsets x_column nf)
               (filter (\<lambda>s. sel_axis s = ''left'') sels)
     \<and> right_lines (ps_ax_right (fst (plot_loop L dsets x_column nf sels st)))
         = right_lines (ps_ax_right st)
           @ List.map_filter (series_line L dsets x_column nf)
               (filter (\<lambda>s. sel_axis s \<noteq> ''left'') sels)
     \<and> ps_legend_handles (fst (plot_loop L dsets x_column nf sels st))
         = ps_legend_handles st @ List.map_filter (series_line L dsets x_column nf) sels
     \<and> ps_legend_labels (fst (plot_loop L dsets x_column nf sels st))
         = ps_legend_labels st
           @ map sel_label (filter (drawable dsets x_column) sels)"
  using assms
proof (induction sels arbitrary: st)
  case Nil
  show ?case by (simp add: map_filter_simps)
next
  case (Cons s sels)
  have idx: "sel_dataset_index s < length dsets" using Cons.prems(1) by simp
  have rest: "\<forall>s\<in>set sels. sel_dataset_index s < length dsets"
    "\<forall>s\<in>set sels. drawable dsets x_column s \<longrightarrow> series_line L dsets x_column nf s \<noteq> None"
    using Cons.prems by simp_all
  note IH = Cons.IH[OF rest]
  show ?case
  proof (cases "drawable dsets x_column s")
    case False
    from IH[of "st\<lparr>ps_events := ps_events st @ [missing_column_warning L dsets x_column s]\<rparr>"]
    show ?thesis
      unfolding plot_loop_skip[OF idx False]
      using False by (simp add: map_filter_simps series_line_not_drawable)
  next
    case True
    with Cons.prems(2) obtain line where line: "series_line L dsets x_column nf s = Some line"
      by auto
    from series_line_SomeD(2)[OF line] have lbl: "ln_label line = sel_label s" by auto
    show ?thesis
    proof (cases "sel_axis s = ''left''")
      case left: True
      from IH[of "st\<lparr>ps_ax_left := axes_plot (ps_ax_left st) line,
                    ps_legend_handles := ps_legend_handles st @ [line],
                    ps_legend_labels := ps_legend_labels st @ [sel_label s]\<rparr>"]
      show ?thesis
        unfolding plot_loop_draw[OF idx line]
        using True left line by (simp add: map_filter_simps axes_plot_def)
    next
      case right: False
      from IH[of "st\<lparr>ps_ax_right :=
                      Some (axes_plot (case ps_ax_right st of None \<Rightarrow> new_axes | Some a \<Rightarrow> a)
                              line),
                    ps_legend_handles := ps_legend_handles st @ [line],
                    ps_legend_labels := ps_legend_labels st @ [sel_label s]\<rparr>"]
      show ?thesis
        unfolding plot_loop_draw[OF idx line]
        using True right line
        by (simp add: map_filter_simps axes_plot_def right_lines_def new_axes_def
            split: option.splits)
    qed
  qed
qed


lemma set_lim_ok_None: "set_lim_ok L None None"
  by (simp add: set_lim_ok_def)










lemmas plot_defs =
  plot_series_def read_numeric_fields_def bind_raise_def get_float_from_var_def
  finish_axes_def set_lim_ok_def axes_plot_def new_axes_def df_columns_def df_getitem_def
  py_strip_def py_isspace_def py_or_def ds_name_def Let_def

lemma example_mixed_fields:
  "series example_mixed =
          [\<lparr>sel_dataset_index = 1, sel_column = ''c'', sel_axis = ''right'',
            sel_label = ''run2: c'', sel_color = Some ''C0''\<rparr>,
           \<lparr>sel_dataset_index = 0, sel_column = ''a'', sel_axis = ''left'',
            sel_label = ''run1: a'', sel_color = Some ''C1''\<rparr>,
           \<lparr>sel_dataset_index = 0, sel_column = ''b'', sel_axis = ''left'',
            sel_label = ''run1: b'', sel_color = Some ''C2''\<rparr>]"
  "x_column_var example_mixed = ''t''"
  "datasets example_mixed = example_datasets"
  by (simp_all add: example_mixed_def example_app_def init_def)







text \<open>
  C4. With no selection \<open>_plot_series\<close> shows the "No series" dialogue, and with
  selections but no x-axis column it shows the "Select X column" dialogue; in both
  cases it returns at once: the application and its figure are unchanged and the canvas
  is not redrawn.
\<close>

theorem plot_series_fails_fast:
  "(series self = [] \<longrightarrow>
      plot_series L self =
        (self, [ShowInfo ''No series'' ''Add at least one series to plot.''], None))
   \<and> (series self \<noteq> [] \<and> x_column_var self = [] \<longrightarrow>
      plot_series L self =
        (self, [ShowInfo ''Select X column'' ''Choose a column for the X axis.''], None))"
  by (simp add: plot_series_def)

theorem plot_series_fails_fast_witness:
  "series (init None :: (real, real) plot_application) = []
   \<and> plot_series example_lib (init None) =
        (init None, [ShowInfo ''No series'' ''Add at least one series to plot.''], None)
   \<and> series (example_mixed\<lparr>x_column_var := []\<rparr>) \<noteq> []
   \<and> plot_series example_lib (example_mixed\<lparr>x_column_var := []\<rparr>) =
        (example_mixed\<lparr>x_column_var := []\<rparr>,
         [ShowInfo ''Select X column'' ''Choose a column for the X axis.''], None)"
proof -
  have 1: "series (init None :: (real, real) plot_application) = []"
    by (simp add: init_def)
  have 2: "series (example_mixed\<lparr>x_column_var := []\<rparr>) \<noteq> []
      \<and> x_column_var (example_mixed\<lparr>x_column_var := []\<rparr>) = []"
    by (simp add: example_mixed_fields)
  from plot_series_fails_fast[of "init None" example_lib]
    plot_series_fails_fast[of "example_mixed\<lparr>x_column_var := []\<rparr>" example_lib] 1 2
  show ?thesis by simp
qed

lemma get_float_from_var_ok:
  "field_ok L text \<Longrightarrow>
     get_float_from_var L text lbl dflt
       = Inr (if py_strip text = [] then dflt else py_float L (py_strip text))"
  by (auto simp: get_float_from_var_def field_ok_def Let_def)

lemma get_float_from_var_bad:
  "\<not> field_ok L text \<Longrightarrow>
     get_float_from_var L text lbl dflt
       = Inl (ShowError ''Invalid value'' (''Enter a numeric value for '' @ lbl @ ''.''))"
  by (auto simp: get_float_from_var_def field_ok_def Let_def)

text \<open>The \<open>try\<close> block stops at the first field that does not pass, and names it.\<close>

lemma read_numeric_fields_first_invalid:
  "read_numeric_fields L self =
     (case first_invalid L (numeric_field_texts self) of
        Some lbl \<Rightarrow>
          Inl (ShowError ''Invalid value'' (''Enter a numeric value for '' @ lbl @ ''.''))
      | None \<Rightarrow>
          Inr \<lparr>nf_x_scale = (if py_strip (x_scale_var self) = [] then Some (float_one L)
                             else py_float L (py_strip (x_scale_var self))),
               nf_left_y_scale = (if py_strip (left_y_scale_var self) = []
                                  then Some (float_one L)
                                  else py_float L (py_strip (left_y_scale_var self))),
               nf_right_y_scale = (if py_strip (right_y_scale_var self) = []
                                   then Some (float_one L)
                                   else py_float L (py_strip (right_y_scale_var self))),
               nf_x_min = (if py_strip (x_min_var self) = [] then None
                           else py_float L (py_strip (x_min_var self))),
               nf_x_max = (if py_strip (x_max_var self) = [] then None
                           else py_float L (py_strip (x_max_var self))),
               nf_left_y_min = (if py_strip (left_y_min_var self) = [] then None
                                else py_float L (py_strip (left_y_min_var self))),
               nf_left_y_max = (if py_strip (left_y_max_var self) = [] then None
                                else py_float L (py_strip (left_y_max_var self))),
               nf_right_y_min = (if py_strip (right_y_min_var self) = [] then None
                                 else py_float L (py_strip (right_y_min_var self))),
               nf_right_y_max = (if py_strip (right_y_max_var self) = [] then None
                                 else py_float L (py_strip (right_y_max_var self)))\<rparr>)"
proof -
  have step: "\<And>text lbl dflt k.
      bind_raise (get_float_from_var L text lbl dflt) k =
        (if field_ok L text
         then k (if py_strip text = [] then dflt else py_float L (py_strip text))
         else Inl (ShowError ''Invalid value'' (''Enter a numeric value for '' @ lbl @ ''.'')))"
    by (simp add: bind_raise_def get_float_from_var_ok get_float_from_var_bad)
  show ?thesis
    unfolding read_numeric_fields_def numeric_field_texts_def step
    by (simp del: py_strip_def)
qed

lemma first_invalid_index:
  "i < length flds \<Longrightarrow> \<not> field_ok L (fst (flds ! i)) \<Longrightarrow>
   \<forall>j<i. field_ok L (fst (flds ! j)) \<Longrightarrow>
   first_invalid L flds = Some (snd (flds ! i))"
proof (induction flds arbitrary: i)
  case Nil
  then show ?case by simp
next
  case (Cons f flds)
  obtain v lbl where f: "f = (v, lbl)" by (cases f)
  show ?case
  proof (cases i)
    case 0
    with Cons.prems f show ?thesis by simp
  next
    case (Suc i')
    with Cons.prems have ok: "field_ok L v" using f by fastforce
    from Suc Cons.prems have "i' < length flds" "\<not> field_ok L (fst (flds ! i'))"
      "\<forall>j<i'. field_ok L (fst (flds ! j))" by auto
    from Cons.IH[OF this] ok f Suc show ?thesis by simp
  qed
qed

lemma first_invalid_None:
  "first_invalid L flds = None \<longleftrightarrow> (\<forall>i<length flds. field_ok L (fst (flds ! i)))"
proof (induction flds)
  case Nil
  show ?case by simp
next
  case (Cons f flds)
  obtain v lbl where f: "f = (v, lbl)" by (cases f)
  show ?case using Cons.IH f
    by (auto simp: nth_Cons less_Suc_eq_0_disj split: nat.splits)
qed

text \<open>
  C8, against the claim as stated: a scale field holding one space is not empty and
  \<open>float\<close> rejects it, yet \<open>_plot_series\<close> strips it first, takes it for blank, uses
  the default 1.0 and draws the plot.
\<close>

theorem plot_series_blank_field_counterexample:
  "x_scale_var (example_mixed\<lparr>x_scale_var := '' ''\<rparr>) \<noteq> []
   \<and> py_float example_lib (x_scale_var (example_mixed\<lparr>x_scale_var := '' ''\<rparr>)) = None
   \<and> read_numeric_fields example_lib (example_mixed\<lparr>x_scale_var := '' ''\<rparr>) =
       Inr \<lparr>nf_x_scale = Some 1, nf_left_y_scale = Some 1, nf_right_y_scale = Some 1,
            nf_x_min = None, nf_x_max = None, nf_left_y_min = None, nf_left_y_max = None,
            nf_right_y_min = None, nf_right_y_max = None\<rparr>
   \<and> snd (plot_series example_lib (example_mixed\<lparr>x_scale_var := '' ''\<rparr>)) =
       ([ShowWarning ''Missing column'' ''Column 't' not found in dataset 'run2'.'', DrawIdle],
        None)"
  by (simp add: example_mixed_def example_defs plot_defs)

text \<open>
  C8, amended. Once \<open>_plot_series\<close> is past its two checks, the nine numeric fields are
  read in order, each stripped of surrounding whitespace. The first field that is not
  blank after stripping and that \<open>float\<close> rejects ends the callback with the "Invalid
  value" error naming that field, the application and its figure unchanged and the
  canvas not redrawn; so any such field makes the plot fail. A field that is blank after
  stripping gives no bound for a range and 1.0 for a scale.
\<close>

theorem plot_series_invalid_number:
  assumes "series self \<noteq> []" "x_column_var self \<noteq> []"
  shows "(i < length (numeric_field_texts self)
            \<and> \<not> field_ok L (fst (numeric_field_texts self ! i))
            \<and> (\<forall>j<i. field_ok L (fst (numeric_field_texts self ! j))) \<longrightarrow>
          plot_series L self =
            (self,
             [ShowError ''Invalid value''
                (''Enter a numeric value for '' @ snd (numeric_field_texts self ! i) @ ''.'')],
             None))
     \<and> ((\<exists>k<length (numeric_field_texts self).
             \<not> field_ok L (fst (numeric_field_texts self ! k))) \<longrightarrow>
          fst (plot_series L self) = self
          \<and> (\<exists>lbl. snd (plot_series L self) =
                ([ShowError ''Invalid value''
                    (''Enter a numeric value for '' @ lbl @ ''.'')], None)))
     \<and> (read_numeric_fields L self = Inr nf \<longrightarrow>
          (py_strip (x_scale_var self) = [] \<longrightarrow> nf_x_scale nf = Some (float_one L))
          \<and> (py_strip (left_y_scale_var self) = [] \<longrightarrow> nf_left_y_scale nf = Some (float_one L))
          \<and> (py_strip (right_y_scale_var self) = [] \<longrightarrow>
                nf_right_y_scale nf = Some (float_one L))
          \<and> (py_strip (x_min_var self) = [] \<longrightarrow> nf_x_min nf = None)
          \<and> (py_strip (x_max_var self) = [] \<longrightarrow> nf_x_max nf = None)
          \<and> (py_strip (left_y_min_var self) = [] \<longrightarrow> nf_left_y_min nf = None)
          \<and> (py_strip (left_y_max_var self) = [] \<longrightarrow> nf_left_y_max nf = None)
          \<and> (py_strip (right_y_min_var self) = [] \<longrightarrow> nf_right_y_min nf = None)
          \<and> (py_strip (right_y_max_var self) = [] \<longrightarrow> nf_right_y_max nf = None))"
proof -
  have stop: "\<And>lbl. first_invalid L (numeric_field_texts self) = Some lbl \<Longrightarrow>
      plot_series L self =
        (self, [ShowError ''Invalid value'' (''Enter a numeric value for '' @ lbl @ ''.'')],
         None)"
    using assms by (simp add: plot_series_def read_numeric_fields_first_invalid)
  have 1: "i < length (numeric_field_texts self)
            \<and> \<not> field_ok L (fst (numeric_field_texts self ! i))
            \<and> (\<forall>j<i. field_ok L (fst (numeric_field_texts self ! j))) \<longrightarrow>
          plot_series L self =
            (self,
             [ShowError ''Invalid value''
                (''Enter a numeric value for '' @ snd (numeric_field_texts self ! i) @ ''.'')],
             None)"
    using first_invalid_index[of i "numeric_field_texts self" L] stop by blast
  have 2: "(\<exists>k<length (numeric_field_texts self).
             \<not> field_ok L (fst (numeric_field_texts self ! k))) \<longrightarrow>
          fst (plot_series L self) = self
          \<and> (\<exists>lbl. snd (plot_series L self) =
                ([ShowError ''Invalid value''
                    (''Enter a numeric value for '' @ lbl @ ''.'')], None))"
  proof
    assume "\<exists>k<length (numeric_field_texts self).
             \<not> field_ok L (fst (numeric_field_texts self ! k))"
    then have "first_invalid L (numeric_field_texts self) \<noteq> None"
      by (simp add: first_invalid_None)
    then obtain lbl where "first_invalid L (numeric_field_texts self) = Some lbl" by blast
    from stop[OF this] show "fst (plot_series L self) = self
          \<and> (\<exists>lbl. snd (plot_series L self) =
                ([ShowError ''Invalid value''
                    (''Enter a numeric value for '' @ lbl @ ''.'')], None))" by simp
  qed
  have 3: "read_numeric_fields L self = Inr nf \<longrightarrow>
          (py_strip (x_scale_var self) = [] \<longrightarrow> nf_x_scale nf = Some (float_one L))
          \<and> (py_strip (left_y_scale_var self) = [] \<longrightarrow> nf_left_y_scale nf = Some (float_one L))
          \<and> (py_strip (right_y_scale_var self) = [] \<longrightarrow>
                nf_right_y_scale nf = Some (float_one L))
          \<and> (py_strip (x_min_var self) = [] \<longrightarrow> nf_x_min nf = None)
          \<and> (py_strip (x_max_var self) = [] \<longrightarrow> nf_x_max nf = None)
          \<and> (py_strip (left_y_min_var self) = [] \<longrightarrow> nf_left_y_min nf = None)
          \<and> (py_strip (left_y_max_var self) = [] \<longrightarrow> nf_left_y_max nf = None)
          \<and> (py_strip (right_y_min_var self) = [] \<longrightarrow> nf_right_y_min nf = None)
          \<and> (py_strip (right_y_max_var self) = [] \<longrightarrow> nf_right_y_max nf = None)"
  proof
    assume r: "read_numeric_fields L self = Inr nf"
    show "(py_strip (x_scale_var self) = [] \<longrightarrow> nf_x_scale nf = Some (float_one L))
          \<and> (py_strip (left_y_scale_var self) = [] \<longrightarrow> nf_left_y_scale nf = Some (float_one L))
          \<and> (py_strip (right_y_scale_var self) = [] \<longrightarrow>
                nf_right_y_scale nf = Some (float_one L))
          \<and> (py_strip (x_min_var self) = [] \<longrightarrow> nf_x_min nf = None)
          \<and> (py_strip (x_max_var self) = [] \<longrightarrow> nf_x_max nf = None)
          \<and> (py_strip (left_y_min_var self) = [] \<longrightarrow> nf_left_y_min nf = None)
          \<and> (py_strip (left_y_max_var self) = [] \<longrightarrow> nf_left_y_max nf = None)
          \<and> (py_strip (right_y_min_var self) = [] \<longrightarrow> nf_right_y_min nf = None)
          \<and> (py_strip (right_y_max_var self) = [] \<longrightarrow> nf_right_y_max nf = None)"
    proof (cases "first_invalid L (numeric_field_texts self)")
      case None
      with r show ?thesis
        unfolding read_numeric_fields_first_invalid by auto
    next
      case (Some lbl)
      with r show ?thesis
        unfolding read_numeric_fields_first_invalid by simp
    qed
  qed
  from 1 2 3 show ?thesis by blast
qed

theorem plot_series_invalid_number_witness:
  "series example_mixed \<noteq> [] \<and> x_column_var example_mixed \<noteq> []
   \<and> \<not> field_ok example_lib ''abc''
   \<and> plot_series example_lib (example_mixed\<lparr>left_y_min_var := ''abc''\<rparr>) =
       (example_mixed\<lparr>left_y_min_var := ''abc''\<rparr>,
        [ShowError ''Invalid value'' ''Enter a numeric value for Left axis minimum.''], None)
   \<and> read_numeric_fields example_lib (example_mixed\<lparr>x_scale_var := []\<rparr>) =
       Inr \<lparr>nf_x_scale = Some 1, nf_left_y_scale = Some 1, nf_right_y_scale = Some 1,
            nf_x_min = None, nf_x_max = None, nf_left_y_min = None, nf_left_y_max = None,
            nf_right_y_min = None, nf_right_y_max = None\<rparr>
   \<and> float_one example_lib = 1"
proof -
  let ?bad = "example_mixed\<lparr>left_y_min_var := ''abc''\<rparr>"
  let ?blank = "example_mixed\<lparr>x_scale_var := []\<rparr>"
  have ne: "series ?bad \<noteq> []" "x_column_var ?bad \<noteq> []"
    "series ?blank \<noteq> []" "x_column_var ?blank \<noteq> []"
    "series example_mixed \<noteq> []" "x_column_var example_mixed \<noteq> []"
    by (simp_all add: example_mixed_fields)
  have texts: "numeric_field_texts ?bad =
     [(''1'', ''X axis scale''), (''1'', ''Left axis scale''), (''1'', ''Right axis scale''),
      ([], ''X axis minimum''), ([], ''X axis maximum''), (''abc'', ''Left axis minimum''),
      ([], ''Left axis maximum''), ([], ''Right axis minimum''), ([], ''Right axis maximum'')]"
    by (simp add: numeric_field_texts_def example_mixed_def example_app_def init_def)
  have ok: "field_ok example_lib ''1''" "field_ok example_lib []"
    "\<not> field_ok example_lib ''abc''"
    by (simp_all add: field_ok_def py_strip_def py_isspace_def example_lib_def
        example_float_def)
  have before: "\<forall>j<5. field_ok example_lib (fst (numeric_field_texts ?bad ! j))"
  proof (intro allI impI)
    fix j :: nat assume "j < 5"
    then consider "j = 0" | "j = 1" | "j = 2" | "j = 3" | "j = 4" by linarith
    then show "field_ok example_lib (fst (numeric_field_texts ?bad ! j))"
      by cases (simp_all add: texts ok)
  qed
  have h: "5 < length (numeric_field_texts ?bad)
      \<and> \<not> field_ok example_lib (fst (numeric_field_texts ?bad ! 5))
      \<and> (\<forall>j<5. field_ok example_lib (fst (numeric_field_texts ?bad ! j)))"
    using before by (simp add: texts ok)
  from plot_series_invalid_number[OF ne(1,2), of 5 example_lib] h
  have 1: "plot_series example_lib ?bad =
       (?bad, [ShowError ''Invalid value'' ''Enter a numeric value for Left axis minimum.''],
        None)"
    by (simp add: texts)
  have r: "read_numeric_fields example_lib ?blank =
       Inr \<lparr>nf_x_scale = Some 1, nf_left_y_scale = Some 1, nf_right_y_scale = Some 1,
            nf_x_min = None, nf_x_max = None, nf_left_y_min = None, nf_left_y_max = None,
            nf_right_y_min = None, nf_right_y_max = None\<rparr>"
    by (simp add: example_mixed_def example_defs plot_defs)
  have b: "py_strip (x_scale_var ?blank) = []" "py_strip (x_min_var ?blank) = []"
    by (simp_all add: example_mixed_def example_app_def init_def py_strip_def)
  from plot_series_invalid_number[OF ne(3,4), of 0 example_lib] r b
  have 2: "nf_x_scale \<lparr>nf_x_scale = Some (1::real), nf_left_y_scale = Some 1,
            nf_right_y_scale = Some 1,
            nf_x_min = None, nf_x_max = None, nf_left_y_min = None, nf_left_y_max = None,
            nf_right_y_min = None, nf_right_y_max = None\<rparr> = Some (float_one example_lib)"
    by blast
  from ne(5,6) ok(3) 1 r 2 show ?thesis by simp
qed

lemma read_numeric_fields_figure:
  "read_numeric_fields L (self\<lparr>figure := F\<rparr>) = read_numeric_fields L self"
  by (simp add: read_numeric_fields_def)

lemma finish_axes_figure:
  "finish_axes L (self\<lparr>figure := F\<rparr>) x_column nf st = finish_axes L self x_column nf st"
  by (simp add: finish_axes_def)

text \<open>
  \<open>_plot_series\<close> writes nothing but the figure, and what it shows, raises and draws
  does not depend on the figure it finds.
\<close>

lemma plot_series_frame:
  "fst (plot_series L self) = self\<lparr>figure := figure (fst (plot_series L self))\<rparr>"
  by (simp add: plot_series_def Let_def split: sum.splits prod.splits option.splits)

lemma plot_series_figure:
  "plot_series L (self\<lparr>figure := F\<rparr>) =
     (if series self \<noteq> [] \<and> x_column_var self \<noteq> []
         \<and> (\<exists>nf. read_numeric_fields L self = Inr nf)
      then plot_series L self
      else (self\<lparr>figure := F\<rparr>, snd (plot_series L self)))"
  by (auto simp: plot_series_def Let_def read_numeric_fields_figure finish_axes_figure
      split: sum.splits prod.splits option.splits)

text \<open>
  C9. Plotting twice in a row gives the second time exactly what it gave the first
  time: the same figure, the same dialogues, the same outcome. \<open>_plot_series\<close> changes
  nothing of the application but the figure: the data sets, the selections, the colour
  cycle and every configuration field are as before.
\<close>

theorem plot_series_idempotent:
  "plot_series L (fst (plot_series L self)) = plot_series L self
   \<and> fst (plot_series L self) = self\<lparr>figure := figure (fst (plot_series L self))\<rparr>
   \<and> datasets (fst (plot_series L self)) = datasets self
   \<and> series (fst (plot_series L self)) = series self
   \<and> color_cycle (fst (plot_series L self)) = color_cycle self
   \<and> numeric_field_texts (fst (plot_series L self)) = numeric_field_texts self
   \<and> x_column_var (fst (plot_series L self)) = x_column_var self"
proof -
  let ?s = "fst (plot_series L self)"
  have frame: "?s = self\<lparr>figure := figure ?s\<rparr>" by (rule plot_series_frame)
  have again: "plot_series L ?s = plot_series L self"
  proof (cases "series self \<noteq> [] \<and> x_column_var self \<noteq> []
         \<and> (\<exists>nf. read_numeric_fields L self = Inr nf)")
    case True
    have "plot_series L ?s = plot_series L (self\<lparr>figure := figure ?s\<rparr>)"
      using frame by simp
    also have "\<dots> = plot_series L self" by (subst plot_series_figure, subst if_P[OF True]) (rule refl)
    finally show ?thesis .
  next
    case False
    have "plot_series L ?s = plot_series L (self\<lparr>figure := figure ?s\<rparr>)"
      using frame by simp
    also have "\<dots> = (self\<lparr>figure := figure ?s\<rparr>, snd (plot_series L self))"
      by (subst plot_series_figure, subst if_not_P[OF False]) (rule refl)
    also have "\<dots> = (?s, snd (plot_series L self))" using frame by simp
    finally show ?thesis by simp
  qed
  have "datasets ?s = datasets (self\<lparr>figure := figure ?s\<rparr>)"
    "series ?s = series (self\<lparr>figure := figure ?s\<rparr>)"
    "color_cycle ?s = color_cycle (self\<lparr>figure := figure ?s\<rparr>)"
    "numeric_field_texts ?s = numeric_field_texts (self\<lparr>figure := figure ?s\<rparr>)"
    "x_column_var ?s = x_column_var (self\<lparr>figure := figure ?s\<rparr>)"
    using frame by simp_all
  then have "datasets ?s = datasets self" "series ?s = series self"
    "color_cycle ?s = color_cycle self"
    "numeric_field_texts ?s = numeric_field_texts self"
    "x_column_var ?s = x_column_var self"
    by (simp_all add: numeric_field_texts_def)
  with again frame show ?thesis by blast
qed

theorem plot_series_idempotent_witness:
  "plot_series example_lib (fst (plot_series example_lib example_mixed))
     = plot_series example_lib example_mixed
   \<and> snd (plot_series example_lib example_mixed) =
       ([ShowWarning ''Missing column'' ''Column 't' not found in dataset 'run2'.'', DrawIdle],
        None)
   \<and> figure (fst (plot_series example_lib example_mixed)) \<noteq> figure example_mixed
   \<and> series (fst (plot_series example_lib example_mixed)) = series example_mixed
   \<and> color_cycle (fst (plot_series example_lib example_mixed)) = color_cycle example_mixed"
proof -
  have e: "snd (plot_series example_lib example_mixed) =
       ([ShowWarning ''Missing column'' ''Column 't' not found in dataset 'run2'.'', DrawIdle],
        None)"
    by (simp add: example_mixed_def example_defs plot_defs)
  have f: "fig_left (figure (fst (plot_series example_lib example_mixed))) \<noteq> None"
    by (simp add: example_mixed_def example_defs plot_defs)
  have g: "fig_left (figure example_mixed) = None"
    by (simp add: example_mixed_def example_app_def init_def)
  from f g have "figure (fst (plot_series example_lib example_mixed)) \<noteq> figure example_mixed"
    by auto
  with plot_series_idempotent[of example_lib example_mixed] e show ?thesis by simp
qed

end
